theory Spec2Isabelle
  imports Main "HOL-Library.AList"
begin

section \<open>JavaScript values\<close>

text \<open>
  The program is JavaScript: every value it handles (request configurations, response
  payloads, the parsed token record) is dynamically typed. Values are modelled by one
  datatype. Objects are association lists from property names to values, read with
  \<open>map_of\<close> (the first binding of a name is the live one). Numbers are restricted to
  integers: the only arithmetic of the program compares a timestamp with the clock.
\<close>

datatype jsval =
    JUndefined
  | JNull
  | JBool bool
  | JNum int
  | JStr string
  | JArr "jsval list"
  | JObj "(string \<times> jsval) list"

type_synonym jsobj = "(string \<times> jsval) list"

text \<open>The \<^verbatim>\<open>typeof\<close> operator; \<^verbatim>\<open>typeof null\<close> is \<^verbatim>\<open>"object"\<close>, and so is an array's.\<close>

fun typeof :: "jsval \<Rightarrow> string" where
  "typeof JUndefined = ''undefined''"
| "typeof JNull = ''object''"
| "typeof (JBool b) = ''boolean''"
| "typeof (JNum n) = ''number''"
| "typeof (JStr s) = ''string''"
| "typeof (JArr xs) = ''object''"
| "typeof (JObj kvs) = ''object''"

text \<open>Truthiness, as \<^verbatim>\<open>if (v)\<close>, \<^verbatim>\<open>!v\<close>, \<^verbatim>\<open>a && b\<close> and \<^verbatim>\<open>a || b\<close> test it.\<close>

fun truthy :: "jsval \<Rightarrow> bool" where
  "truthy JUndefined = False"
| "truthy JNull = False"
| "truthy (JBool b) = b"
| "truthy (JNum n) = (n \<noteq> 0)"
| "truthy (JStr s) = (s \<noteq> [])"
| "truthy (JArr xs) = True"
| "truthy (JObj kvs) = True"

text \<open>\<^verbatim>\<open>v === null || v === undefined\<close>: what \<^verbatim>\<open>??\<close> and \<^verbatim>\<open>?.\<close> test, and what makes a
  property read or a destructuring throw a TypeError.\<close>

fun nullish :: "jsval \<Rightarrow> bool" where
  "nullish JUndefined = True"
| "nullish JNull = True"
| "nullish v = False"

text \<open>Reading an own property of an object: \<^verbatim>\<open>o.k\<close> is \<^verbatim>\<open>undefined\<close> when \<open>o\<close> has no
  property \<open>k\<close>.\<close>

definition obj_get :: "jsobj \<Rightarrow> string \<Rightarrow> jsval" where
  "obj_get kvs k = (case map_of kvs k of None \<Rightarrow> JUndefined | Some v \<Rightarrow> v)"

text \<open>\<^verbatim>\<open>v.k\<close> on a value that is known not to be nullish. The named properties the program
  reads (\<^verbatim>\<open>token\<close>, \<^verbatim>\<open>expireAt\<close>, \<^verbatim>\<open>code\<close>, ...) are absent from primitives and arrays.\<close>

fun js_get :: "jsval \<Rightarrow> string \<Rightarrow> jsval" where
  "js_get (JObj kvs) k = obj_get kvs k"
| "js_get v k = JUndefined"

text \<open>\<^verbatim>\<open>o.k = v\<close> on an object: the property is overwritten in place, or added.\<close>

definition obj_set :: "jsobj \<Rightarrow> string \<Rightarrow> jsval \<Rightarrow> jsobj" where
  "obj_set kvs k v = AList.update k v kvs"

text \<open>\<^verbatim>\<open>a ?? b\<close> and \<^verbatim>\<open>a || b\<close>.\<close>

definition js_coalesce :: "jsval \<Rightarrow> jsval \<Rightarrow> jsval" where
  "js_coalesce a b = (if nullish a then b else a)"

definition js_or :: "jsval \<Rightarrow> jsval \<Rightarrow> jsval" where
  "js_or a b = (if truthy a then a else b)"

section \<open>The language and library operations the program calls\<close>

text \<open>
  Built-in operations of the language and the helper \<^verbatim>\<open>isReqSuccess\<close> (imported from
  \<^verbatim>\<open>responseHelper\<close>, which is not among the sources) are parameters of the model:
  \<^item> \<open>JSON_parse s\<close> is \<open>None\<close> where \<^verbatim>\<open>JSON.parse\<close> throws a SyntaxError;
  \<^item> \<open>JSON_stringify\<close> is \<^verbatim>\<open>JSON.stringify\<close>;
  \<^item> \<open>ToNumber\<close> is the conversion an arithmetic comparison applies to a string, an array
    or an object (\<open>None\<close> for NaN);
  \<^item> \<open>ToString\<close> is the conversion a template literal applies;
  \<^item> \<open>isReqSuccess\<close> tells whether a payload signals business success;
  \<^item> \<open>titlePrefix\<close> is the literal prefix of the title of a failure notification;
  \<^item> \<open>net\<close> is the network: the answer to the request sent last, which may depend on
    everything observable that happened before it; \<open>latency\<close> is the time the answer takes,
    in milliseconds.
\<close>

datatype net_outcome =
    Answer int jsval
  | NoAnswer string
  | SetupFailure string
  | Aborted string

datatype event =
    NetRequest jsobj
  | RefreshPost string jsval jsobj
  | Navigate string
  | Notification jsval jsval jsval

record env =
  JSON_parse :: "string \<Rightarrow> jsval option"
  JSON_stringify :: "jsval \<Rightarrow> string"
  ToNumber :: "jsval \<Rightarrow> int option"
  ToString :: "jsval \<Rightarrow> string"
  isReqSuccess :: "jsval \<Rightarrow> bool"
  titlePrefix :: string
  net :: "event list \<Rightarrow> net_outcome"
  latency :: "event list \<Rightarrow> nat"

section \<open>constants.js\<close>

definition DEBUG_TOKEN_EXPIRED_AFTER_10_SEC :: bool where
  "DEBUG_TOKEN_EXPIRED_AFTER_10_SEC = False"

definition LOGOUT_LOCK_TIME :: int where
  "LOGOUT_LOCK_TIME = 1000"

text \<open>The address of the refresh endpoint; the base address, which the source takes from the
  build environment, is left out.\<close>

definition URL_REFRESH_TOKEN :: string where
  "URL_REFRESH_TOKEN = ''/api/users/refresh/token''"

definition PATHS_WHITELIST :: "string list" where
  "PATHS_WHITELIST =
     [''endpoint'', ''method'', ''body'', ''cancelToken'', ''withoutAuth'',
      ''disableErrorNotification'']"

section \<open>utils: the token store\<close>

text \<open>
  \<^verbatim>\<open>localStorage\<close> holds at most one item of interest, under the key \<^verbatim>\<open>"token"\<close>:
  \<open>None\<close> when the key is absent (\<^verbatim>\<open>getItem\<close> returns \<^verbatim>\<open>null\<close>), the stored string
  otherwise. \<^verbatim>\<open>JSON.parse\<close> converts its argument to a string first, so an absent item is
  parsed as the text \<^verbatim>\<open>null\<close>.
\<close>

datatype js_exception = SyntaxError

definition item_text :: "string option \<Rightarrow> string" where
  "item_text item = (case item of None \<Rightarrow> ''null'' | Some s \<Rightarrow> s)"

definition getLocalStorageToken_try :: "(string \<Rightarrow> jsval option) \<Rightarrow> string option \<Rightarrow> js_exception + jsval" where
  "getLocalStorageToken_try parse item =
     (let localStorageToken = item_text item in
      case parse localStorageToken of
        None \<Rightarrow> Inl SyntaxError
      | Some parsedToken \<Rightarrow>
          if typeof parsedToken = ''object'' then Inr parsedToken else Inr JNull)"

text \<open>The \<^verbatim>\<open>catch (_)\<close> clause turns whatever the block throws into \<^verbatim>\<open>null\<close>.\<close>

definition getLocalStorageToken :: "(string \<Rightarrow> jsval option) \<Rightarrow> string option \<Rightarrow> jsval" where
  "getLocalStorageToken parse item =
     (case getLocalStorageToken_try parse item of
        Inl _ \<Rightarrow> JNull
      | Inr v \<Rightarrow> v)"

text \<open>
  \<^verbatim>\<open>isTokenExpired\<close>: \<^verbatim>\<open>(tokenObject?.expireAt ?? 0) < Date.now()\<close>. The comparison is
  numeric, the clock being a number: \<^verbatim>\<open>undefined\<close> converts to NaN, which is less than
  nothing; \<^verbatim>\<open>null\<close> and \<^verbatim>\<open>false\<close> convert to 0, \<^verbatim>\<open>true\<close> to 1.
\<close>

fun js_less_num :: "(jsval \<Rightarrow> int option) \<Rightarrow> jsval \<Rightarrow> int \<Rightarrow> bool" where
  "js_less_num conv (JNum n) t = (n < t)"
| "js_less_num conv JUndefined t = False"
| "js_less_num conv JNull t = (0 < t)"
| "js_less_num conv (JBool b) t = ((if b then 1 else 0) < t)"
| "js_less_num conv v t = (case conv v of None \<Rightarrow> False | Some n \<Rightarrow> n < t)"

definition isTokenExpired :: "(jsval \<Rightarrow> int option) \<Rightarrow> int \<Rightarrow> jsval \<Rightarrow> bool" where
  "isTokenExpired conv date_now tokenObject =
     (let tokenExpiredAt =
        js_coalesce (if nullish tokenObject then JUndefined else js_get tokenObject ''expireAt'')
          (JNum 0)
      in js_less_num conv tokenExpiredAt date_now)"


section \<open>classes/Exception.js: what is thrown, and what the facade hands back\<close>

text \<open>
  The classes an \<^verbatim>\<open>instanceof\<close> or \<^verbatim>\<open>axios.isCancel\<close> test of the program tells apart.
  \<open>Error\<close> stands for a plain \<^verbatim>\<open>Error\<close> (the errors of the HTTP client are of this
  class), \<open>Cancel\<close> for the client's cancellation object, \<open>PlainObject\<close> for the object
  literal the request interceptor rejects with.
\<close>

datatype error_class =
    Error
  | TypeError
  | Cancel
  | PlainObject
  | ServerNoResponseError
  | NoAuthTokenError
  | AuthTokenExpiredError
  | BEResponseError

text \<open>A response of the HTTP client: \<^verbatim>\<open>status\<close>, \<^verbatim>\<open>data\<close> (the payload) and \<^verbatim>\<open>config\<close>.\<close>

record response =
  r_status :: int
  r_data :: jsval
  r_config :: jsobj

text \<open>
  A thrown value, with the optional fields the program inspects: \<^verbatim>\<open>message\<close>,
  \<^verbatim>\<open>config\<close>, \<^verbatim>\<open>response\<close>, \<^verbatim>\<open>request\<close> (only its truthiness is read) and
  \<^verbatim>\<open>requestInterceptorError\<close> (an error object of which the class and message matter).
\<close>

record thrown =
  cls :: error_class
  e_message :: string
  e_config :: "jsobj option"
  e_response :: "response option"
  e_request :: bool
  requestInterceptorError :: "(error_class \<times> string) option"

definition new_error :: "error_class \<Rightarrow> string \<Rightarrow> thrown" where
  "new_error c msg =
     \<lparr>cls = c, e_message = msg, e_config = None, e_response = None, e_request = False,
      requestInterceptorError = None\<rparr>"

text \<open>\<^verbatim>\<open>class RequestError\<close>: the constructor copies four fields of its argument; a field the
  argument lacks is \<^verbatim>\<open>undefined\<close> (\<open>None\<close>).\<close>

record RequestError =
  error :: "thrown option"
  config :: "jsobj option"
  response :: "response option"
  isCancelled :: "bool option"

text \<open>What a promise of the request pipeline rejects with: a \<open>RequestError\<close> built by an
  interceptor, or an error thrown inside an interceptor.\<close>

datatype rejected = ReqErr RequestError | Raw thrown

section \<open>The browser: storage, clock, timers, navigation, notifications\<close>

text \<open>
  The state the program reads and writes: the token item of \<^verbatim>\<open>localStorage\<close>, the private
  field \<^verbatim>\<open>#logoutTimeout\<close> of the manager (the time at which its pending timer is due, or
  \<open>None\<close> when the field is unset or has been reset by the timer), the clock
  (\<^verbatim>\<open>Date.now()\<close>, in milliseconds), and the sequence of effects that leave the program:
  requests handed to the transport, navigations, notifications.
\<close>

record world =
  storage :: "string option"
  logoutTimeout :: "int option"
  date_now :: int
  trace :: "event list"

text \<open>
  Time passes while a task waits for the network. A timer set by \<^verbatim>\<open>setTimeout\<close> runs once
  its delay has elapsed, before the waiting task resumes: the callback of the manager's timer
  resets \<^verbatim>\<open>#logoutTimeout\<close> to \<^verbatim>\<open>null\<close>.
\<close>

definition advance :: "nat \<Rightarrow> world \<Rightarrow> world" where
  "advance d w =
     (let t = date_now w + int d in
      w\<lparr>date_now := t,
        logoutTimeout :=
          (case logoutTimeout w of
             None \<Rightarrow> None
           | Some due \<Rightarrow> if due \<le> t then None else Some due)\<rparr>)"

text \<open>\<^verbatim>\<open>logout\<close> of utils: remove the token, send the page to the root.\<close>

definition logout :: "world \<Rightarrow> world" where
  "logout w = w\<lparr>storage := None, trace := trace w @ [Navigate ''/'']\<rparr>"

text \<open>\<^verbatim>\<open>UnauthorizedManager.logout\<close>: when no timer is pending, set one for
  \<open>LOGOUT_LOCK_TIME\<close> and log out; otherwise do nothing.\<close>

definition UnauthorizedManager_logout :: "world \<Rightarrow> world" where
  "UnauthorizedManager_logout w =
     (case logoutTimeout w of
        None \<Rightarrow> logout (w\<lparr>logoutTimeout := Some (date_now w + LOGOUT_LOCK_TIME)\<rparr>)
      | Some _ \<Rightarrow> w)"

text \<open>\<^verbatim>\<open>{...base, ...v}\<close>: the own properties of an object override those of \<open>base\<close>; a nullish
  value or a primitive contributes none of the properties the program names.\<close>

definition spread :: "jsobj \<Rightarrow> jsval \<Rightarrow> jsobj" where
  "spread base v = (case v of JObj kvs \<Rightarrow> AList.merge base kvs | _ \<Rightarrow> base)"

text \<open>\<^verbatim>\<open>_displayNotification\<close> takes \<^verbatim>\<open>mode\<close>, \<^verbatim>\<open>title\<close> and \<^verbatim>\<open>content\<close> from its argument
  and dispatches them to the notification sink.\<close>

definition displayNotification :: "world \<Rightarrow> jsobj \<Rightarrow> world" where
  "displayNotification w info =
     w\<lparr>trace := trace w @
        [Notification (obj_get info ''mode'') (obj_get info ''title'') (obj_get info ''content'')]\<rparr>"

definition displayFailNotification :: "world \<Rightarrow> jsval \<Rightarrow> world" where
  "displayFailNotification w notificationInfo =
     displayNotification w (spread [(''mode'', JStr ''fail'')] notificationInfo)"

definition displaySuccessNotification :: "world \<Rightarrow> jsval \<Rightarrow> world" where
  "displaySuccessNotification w notificationInfo =
     displayNotification w (spread [] notificationInfo)"

section \<open>The HTTP client\<close>

text \<open>
  The transport is a collaborator of the program. Its adapter ends a request in one of four
  ways: the server answered with a status and a body; the request was sent and no answer
  came; the request could not be set up (the error then carries the configuration or not);
  the caller cancelled it. The client resolves with a response when the status is within
  200..299 and rejects with an error otherwise; the error carries \<^verbatim>\<open>response\<close> and
  \<^verbatim>\<open>request\<close> in the first case, \<^verbatim>\<open>request\<close> alone in the second, neither in the third.
\<close>

definition axios_settle :: "env \<Rightarrow> jsobj \<Rightarrow> net_outcome \<Rightarrow> thrown + response" where
  "axios_settle env cfg outcome =
     (case outcome of
        Answer status body \<Rightarrow>
          (let resp = \<lparr>r_status = status, r_data = body, r_config = cfg\<rparr> in
           if 200 \<le> status \<and> status < 300 then Inr resp
           else Inl \<lparr>cls = Error,
                     e_message = ''Request failed with status code '' @ ToString env (JNum status),
                     e_config = Some cfg, e_response = Some resp, e_request = True,
                     requestInterceptorError = None\<rparr>)
      | NoAnswer msg \<Rightarrow>
          Inl \<lparr>cls = Error, e_message = msg, e_config = Some cfg, e_response = None,
               e_request = True, requestInterceptorError = None\<rparr>
      | SetupFailure msg \<Rightarrow>
          Inl \<lparr>cls = Error, e_message = msg, e_config = Some cfg, e_response = None,
               e_request = False, requestInterceptorError = None\<rparr>
      | Aborted msg \<Rightarrow>
          Inl \<lparr>cls = Cancel, e_message = msg, e_config = None, e_response = None,
               e_request = False, requestInterceptorError = None\<rparr>)"

definition isCancel :: "thrown \<Rightarrow> bool" where
  "isCancel e = (cls e = Cancel)"

section \<open>classes/UnauthorizedManager.js\<close>

text \<open>
  \<^verbatim>\<open>#_refreshingToken\<close> runs in two parts, separated by its one suspension point
  \<^verbatim>\<open>await axios.post(...)\<close>. The first part reads the token record and hands the refresh
  request to the transport.
\<close>

definition refresh_config :: "jsval \<Rightarrow> jsobj" where
  "refresh_config tokenObj =
     [(''headers'', JObj [(''Access-Token'', js_get tokenObj ''token'')])]"

definition refreshing_begin :: "env \<Rightarrow> world \<Rightarrow> thrown + jsobj \<times> world" where
  "refreshing_begin env w =
     (let tokenObj = getLocalStorageToken (JSON_parse env) (storage w) in
      if tokenObj = JNull then Inl (new_error NoAuthTokenError [])
      else
        let data = JObj [(''refreshToken'', js_get tokenObj ''refreshToken'')];
            cfg = refresh_config tokenObj
        in Inr (cfg, w\<lparr>trace := trace w @ [RefreshPost URL_REFRESH_TOKEN data cfg]\<rparr>))"

text \<open>The \<^verbatim>\<open>catch\<close> clause: log out, whatever the error, then throw the error again, or a
  plain error in its place.\<close>

definition refreshing_catch :: "world \<Rightarrow> thrown \<Rightarrow> (thrown + jsval) \<times> world" where
  "refreshing_catch w err =
     (let w' = UnauthorizedManager_logout w in
      if cls err = BEResponseError then (Inl err, w')
      else if e_response err \<noteq> None then
        (Inl (new_error Error
           ''Server responded with HTTP status code out of the range of 2xx''), w')
      else if e_request err then (Inl (new_error Error ''No response was received''), w')
      else (Inl err, w'))"

text \<open>\<^verbatim>\<open>data.expireAt = ...\<close> of the debugging branch: an assignment to a property of a value
  that is not an object throws a TypeError.\<close>

definition debug_expireAt :: "int \<Rightarrow> jsval \<Rightarrow> thrown + jsval" where
  "debug_expireAt t d =
     (case d of
        JObj kvs \<Rightarrow> Inr (JObj (obj_set kvs ''expireAt'' (JNum (t + 10000))))
      | _ \<Rightarrow> Inl (new_error TypeError ''Cannot set properties''))"

text \<open>The second part runs when the transport has settled the refresh request.\<close>

definition refreshing_end :: "env \<Rightarrow> world \<Rightarrow> jsobj \<Rightarrow> net_outcome \<Rightarrow> (thrown + jsval) \<times> world" where
  "refreshing_end env w cfg outcome =
     (case axios_settle env cfg outcome of
        Inl err \<Rightarrow> refreshing_catch w err
      | Inr resp \<Rightarrow>
          if isReqSuccess env (r_data resp) then
            if nullish (r_data resp) then
              refreshing_catch w (new_error TypeError ''Cannot destructure'')
            else
              (case (if DEBUG_TOKEN_EXPIRED_AFTER_10_SEC
                     then debug_expireAt (date_now w) (js_get (r_data resp) ''data'')
                     else Inr (js_get (r_data resp) ''data'')) of
                 Inl err \<Rightarrow> refreshing_catch w err
               | Inr data \<Rightarrow> (Inr data, w\<lparr>storage := Some (JSON_stringify env data)\<rparr>))
          else refreshing_catch w (new_error BEResponseError ''Requesting refresh token fail''))"

text \<open>The two parts in sequence, the network answering in between.\<close>

definition refreshingToken_worker :: "env \<Rightarrow> world \<Rightarrow> (thrown + jsval) \<times> world" where
  "refreshingToken_worker env w =
     (case refreshing_begin env w of
        Inl err \<Rightarrow> (Inl err, w)
      | Inr (cfg, w1) \<Rightarrow>
          refreshing_end env (advance (latency env (trace w1)) w1) cfg (net env (trace w1)))"

text \<open>
  \<^verbatim>\<open>refreshingToken\<close>, for a call that finds the slot \<^verbatim>\<open>#worker\<close> empty and runs with no
  other call interleaved: it starts the worker, awaits it, hands its outcome on and empties
  the slot. Calls that overlap are the subject of the coordinator below.
\<close>

definition refreshingToken :: "env \<Rightarrow> world \<Rightarrow> (thrown + jsval) \<times> world" where
  "refreshingToken env w =
     (let tokenObj = getLocalStorageToken (JSON_parse env) (storage w) in
      if tokenObj = JNull then (Inl (new_error NoAuthTokenError []), w)
      else refreshingToken_worker env w)"

section \<open>The request pipeline\<close>

text \<open>\<^verbatim>\<open>config.headers['Access-Token'] = v\<close>; the client gives every configuration a
  \<^verbatim>\<open>headers\<close> object.\<close>

definition set_header :: "jsobj \<Rightarrow> string \<Rightarrow> jsval \<Rightarrow> jsobj" where
  "set_header cfg k v =
     obj_set cfg ''headers''
       (JObj (obj_set (case obj_get cfg ''headers'' of JObj h \<Rightarrow> h | _ \<Rightarrow> []) k v))"

text \<open>The request interceptor: it rejects with an object literal holding the configuration
  and the error, or hands the configuration on, with the token attached when the request
  needs one.\<close>

definition interceptor_reject :: "jsobj \<Rightarrow> error_class \<Rightarrow> string \<Rightarrow> thrown" where
  "interceptor_reject cfg c msg =
     \<lparr>cls = PlainObject, e_message = [], e_config = Some cfg, e_response = None,
      e_request = False, requestInterceptorError = Some (c, msg)\<rparr>"

definition request_onFulfilled :: "env \<Rightarrow> world \<Rightarrow> jsobj \<Rightarrow> thrown + jsobj" where
  "request_onFulfilled env w cfg =
     (let withoutAuth = obj_get cfg ''withoutAuth'' in
      if \<not> truthy withoutAuth then
        let tokenObject = getLocalStorageToken (JSON_parse env) (storage w) in
        if tokenObject = JNull then
          Inl (interceptor_reject cfg NoAuthTokenError ''No access token'')
        else if isTokenExpired (ToNumber env) (date_now w) tokenObject then
          Inl (interceptor_reject cfg AuthTokenExpiredError ''Token is already expired'')
        else Inr (set_header cfg ''Access-Token'' (js_get tokenObject ''token''))
      else Inr cfg)"

text \<open>The response interceptor, when the client resolved. Destructuring a payload that is
  \<^verbatim>\<open>null\<close> or \<^verbatim>\<open>undefined\<close> throws a TypeError.\<close>

definition response_onFulfilled :: "env \<Rightarrow> world \<Rightarrow> response \<Rightarrow> (rejected + response) \<times> world" where
  "response_onFulfilled env w axiosResponse =
     (let cfg = r_config axiosResponse; data = r_data axiosResponse in
      if truthy data \<and> isReqSuccess env data then (Inr axiosResponse, w)
      else if nullish data then (Inl (Raw (new_error TypeError ''Cannot destructure'')), w)
      else
        let code = js_get data ''code''; status = js_get data ''status'';
            message = js_get data ''message'';
            w' = (if \<not> truthy (obj_get cfg ''disableErrorNotification'') then
                    displayFailNotification w
                      (JObj [(''title'', JStr (titlePrefix env @ ToString env status)),
                             (''content'', js_or message (JStr ''call api failed''))])
                  else w);
            errorMessage =
              (if truthy message then ToString env message
               else ''Server Error with code/status: '' @ ToString env (js_or code status));
            requestError =
              \<lparr>error = Some (new_error BEResponseError errorMessage), config = Some cfg,
               response = Some axiosResponse, isCancelled = None\<rparr>
        in (Inl (ReqErr requestError), w'))"

text \<open>Whether \<^verbatim>\<open>error.response?.status === 401\<close>, and the \<^verbatim>\<open>instanceof\<close> tests on
  \<^verbatim>\<open>error.requestInterceptorError\<close>.\<close>

definition status_is_401 :: "thrown \<Rightarrow> bool" where
  "status_is_401 e = (case e_response e of None \<Rightarrow> False | Some r \<Rightarrow> r_status r = 401)"

definition interceptorError_instanceof :: "thrown \<Rightarrow> error_class \<Rightarrow> bool" where
  "interceptorError_instanceof e c =
     (case requestInterceptorError e of None \<Rightarrow> False | Some (c', _) \<Rightarrow> c' = c)"

definition interceptorError_thrown :: "thrown \<Rightarrow> thrown option" where
  "interceptorError_thrown e =
     (case requestInterceptorError e of None \<Rightarrow> None | Some (c, msg) \<Rightarrow> Some (new_error c msg))"

definition retried_of :: "jsobj \<Rightarrow> nat" where
  "retried_of cfg = (if truthy (obj_get cfg ''retried'') then 0 else 1)"

text \<open>
  The client runs a request in the order: request interceptor, transport, response
  interceptor. A rejection of the request interceptor skips the transport. The response
  interceptor, when the client rejected, classifies the error; for an unauthorized request
  that has not been retried it refreshes the token and runs the request again, marked
  \<^verbatim>\<open>retried\<close>. The exported client is called \<^verbatim>\<open>instance\<close> in the source.
\<close>

function axios_instance :: "env \<Rightarrow> world \<Rightarrow> jsobj \<Rightarrow> (rejected + response) \<times> world"
  and response_onReject :: "env \<Rightarrow> world \<Rightarrow> thrown \<Rightarrow> (rejected + response) \<times> world"
where
  "axios_instance env w cfg =
     (case request_onFulfilled env w cfg of
        Inl err \<Rightarrow> response_onReject env w err
      | Inr cfg' \<Rightarrow>
          (let w1 = w\<lparr>trace := trace w @ [NetRequest cfg']\<rparr>;
               w2 = advance (latency env (trace w1)) w1
           in case axios_settle env cfg' (net env (trace w1)) of
                Inl err \<Rightarrow> response_onReject env w2 err
              | Inr axiosResponse \<Rightarrow> response_onFulfilled env w2 axiosResponse))"
| "response_onReject env w err =
     (if isCancel err then
        (Inl (ReqErr \<lparr>error = None, config = e_config err, response = None,
                      isCancelled = Some True\<rparr>), w)
      else if interceptorError_instanceof err NoAuthTokenError then
        (let w' = UnauthorizedManager_logout w in
         (Inl (ReqErr \<lparr>error = interceptorError_thrown err, config = e_config err,
                       response = e_response err, isCancelled = None\<rparr>), w'))
      else if status_is_401 err \<or> interceptorError_instanceof err AuthTokenExpiredError then
        (case e_config err of
           None \<Rightarrow> (Inl (Raw (new_error TypeError ''Cannot read properties of undefined'')), w)
         | Some cfg \<Rightarrow>
             if truthy (obj_get cfg ''retried'') then
               (let w' = UnauthorizedManager_logout w in
                (Inl (ReqErr \<lparr>error = Some (new_error AuthTokenExpiredError
                         ''The request have been retried, but still receive unauthorized error''),
                       config = e_config err, response = e_response err,
                       isCancelled = None\<rparr>), w'))
             else
               (case refreshingToken env w of
                  (Inr nextTokenObj, w') \<Rightarrow> axios_instance env w' (obj_set cfg ''retried'' (JBool True))
                | (Inl err', w') \<Rightarrow>
                    (Inl (ReqErr \<lparr>error = Some err', config = e_config err',
                           response = e_response err', isCancelled = None\<rparr>), w')))
      else if e_response err \<noteq> None then
        (Inl (ReqErr \<lparr>error = Some (new_error Error
                 ''Server responded with a status code that is out of range of 2xx''),
               config = e_config err, response = e_response err, isCancelled = None\<rparr>), w)
      else if e_request err then
        (Inl (ReqErr \<lparr>error = Some (new_error ServerNoResponseError []),
               config = e_config err, response = None, isCancelled = None\<rparr>), w)
      else
        (Inl (ReqErr \<lparr>error = Some (new_error Error (e_message err)),
               config = e_config err, response = None, isCancelled = None\<rparr>), w))"
  by pat_completeness auto

termination
proof (relation "measure (\<lambda>x. case x of
            Inl (env, w, cfg) \<Rightarrow> 2 * retried_of cfg + 1
          | Inr (env, w, err) \<Rightarrow> (case e_config err of None \<Rightarrow> 0 | Some c \<Rightarrow> 2 * retried_of c))",
       goal_cases)
  case 1
  show ?case by simp
next
  case (2 env w cfg err)
  then show ?case
    by (auto simp: request_onFulfilled_def interceptor_reject_def Let_def split: if_splits)
next
  case (3 env w cfg cfg' w1 w2 err)
  have same: "obj_get cfg' ''retried'' = obj_get cfg ''retried''"
    using 3(1)
    by (auto simp: request_onFulfilled_def Let_def set_header_def obj_get_def obj_set_def
          update_conv' split: if_splits)
  have "e_config err = None \<or> e_config err = Some cfg'"
    using 3(4) by (auto simp: axios_settle_def Let_def split: net_outcome.splits if_splits)
  then show ?case
    using same by (auto simp: retried_of_def)
next
  case (4 env w err cfg r w')
  then show ?case
    by (simp add: retried_of_def obj_get_def obj_set_def update_conv')
qed

text \<open>\<^verbatim>\<open>_pick(object, paths)\<close>: a new object with those of the listed properties that
  \<open>object\<close> has; empty when \<open>object\<close> is not an object.\<close>

definition pick :: "jsval \<Rightarrow> string list \<Rightarrow> jsobj" where
  "pick object paths =
     (case object of
        JObj kvs \<Rightarrow>
          concat (map (\<lambda>k. case map_of kvs k of None \<Rightarrow> [] | Some v \<Rightarrow> [(k, v)]) paths)
      | _ \<Rightarrow> [])"

text \<open>\<^verbatim>\<open>_callApi\<close> destructures its argument and calls the client with a new object:
  \<^verbatim>\<open>endpoint\<close> becomes \<^verbatim>\<open>url\<close>, \<^verbatim>\<open>body\<close> becomes \<^verbatim>\<open>data\<close>, \<^verbatim>\<open>method\<close> defaults to
  \<^verbatim>\<open>'get'\<close>, the other properties are passed as they are.\<close>

definition request_config :: "jsobj \<Rightarrow> jsobj" where
  "request_config cfg =
     (let endpoint = obj_get cfg ''endpoint'';
          method = (if obj_get cfg ''method'' = JUndefined then JStr ''get''
                    else obj_get cfg ''method'');
          body = obj_get cfg ''body'';
          configs = AList.delete ''endpoint'' (AList.delete ''method'' (AList.delete ''body'' cfg))
      in spread [(''url'', endpoint), (''method'', method), (''data'', body)] (JObj configs))"

definition private_callApi :: "env \<Rightarrow> world \<Rightarrow> jsobj \<Rightarrow> (rejected + response) \<times> world" where
  "private_callApi env w cfg = axios_instance env w (request_config cfg)"

text \<open>What an \<^verbatim>\<open>async\<close> function of the facade ends with: a returned value (the promise
  is fulfilled) or a thrown one (the promise is rejected). The value returned is the
  \<^verbatim>\<open>data\<close> field of the response, or whatever the \<^verbatim>\<open>catch\<close> clause caught.\<close>

datatype api_result = Data jsval | Caught rejected

datatype completion = Returned api_result | Thrown thrown

definition callApi :: "env \<Rightarrow> world \<Rightarrow> jsval \<Rightarrow> completion \<times> world" where
  "callApi env w cfg =
     (let pickedConfig = pick cfg PATHS_WHITELIST in
      case private_callApi env w pickedConfig of
        (Inr resp, w') \<Rightarrow> (Returned (Data (r_data resp)), w')
      | (Inl requestError, w') \<Rightarrow> (Returned (Caught requestError), w'))"

text \<open>\<^verbatim>\<open>requestError.isCancelled\<close> and \<^verbatim>\<open>requestError?.error?.message\<close> on a caught
  value.\<close>

definition caught_isCancelled :: "rejected \<Rightarrow> bool" where
  "caught_isCancelled r =
     (case r of ReqErr e \<Rightarrow> (isCancelled e = Some True) | Raw _ \<Rightarrow> False)"

definition caught_message :: "rejected \<Rightarrow> jsval" where
  "caught_message r =
     (case r of
        ReqErr e \<Rightarrow> (case error e of None \<Rightarrow> JUndefined | Some t \<Rightarrow> JStr (e_message t))
      | Raw _ \<Rightarrow> JUndefined)"

text \<open>
  \<^verbatim>\<open>callApiWithNotification(config, options = {})\<close>. The configuration is an object of
  the caller; the function assigns to its property \<^verbatim>\<open>disableErrorNotification\<close>, so the
  object as the caller sees it afterwards is part of the result. Destructuring
  \<^verbatim>\<open>options\<close> throws when it is \<^verbatim>\<open>null\<close> (the default stands in for \<^verbatim>\<open>undefined\<close>
  only).
\<close>

definition callApiWithNotification ::
    "env \<Rightarrow> world \<Rightarrow> jsobj \<Rightarrow> jsval \<Rightarrow> completion \<times> jsobj \<times> world" where
  "callApiWithNotification env w cfg options =
     (if options = JNull then (Thrown (new_error TypeError ''Cannot destructure''), cfg, w)
      else
        let onSuccess = js_get options ''onSuccess''; onFail = js_get options ''onFail'';
            cfg1 = obj_set cfg ''disableErrorNotification''
                     (js_coalesce (obj_get cfg ''disableErrorNotification'')
                        (JBool (truthy onFail)));
            pickedConfig = pick (JObj cfg1) PATHS_WHITELIST
        in case private_callApi env w pickedConfig of
             (Inr resp, w') \<Rightarrow>
               (Returned (Data (r_data resp)), cfg1,
                if truthy onSuccess then displaySuccessNotification w' onSuccess else w')
           | (Inl requestError, w') \<Rightarrow>
               (Returned (Caught requestError), cfg1,
                if \<not> caught_isCancelled requestError \<and> truthy onFail then
                  displayFailNotification w'
                    (JObj (spread [(''mode'', JStr ''fail''),
                                   (''content'', caught_message requestError)] onFail))
                else w'))"

text \<open>A promise of the pipeline ends classified when it is fulfilled, or rejected with a
  \<open>RequestError\<close>.\<close>

fun classified :: "(rejected + response) \<times> world \<Rightarrow> bool" where
  "classified (Inl (Raw t), w) = False"
| "classified r = True"

section \<open>Overlapping calls of refreshingToken\<close>

text \<open>
  The program runs on one thread. A job runs until it ends or suspends at an \<^verbatim>\<open>await\<close>;
  a continuation becomes ready when the promise it awaits settles, or at once when that
  promise has settled already; ready continuations run one at a time, in the order in which
  they became ready, and other jobs, among them new calls, may run between two of them.
  \<^verbatim>\<open>refreshingToken\<close> suspends once, at \<^verbatim>\<open>await this.#worker\<close>; the worker suspends once, at
  \<^verbatim>\<open>await axios.post(...)\<close>. So the manager moves in three kinds of steps:
  \<^item> a caller enters \<^verbatim>\<open>refreshingToken\<close>: it throws at once when there is no token (the
    \<^verbatim>\<open>throw\<close> stands before the \<^verbatim>\<open>try\<close>, so the slot is left alone); otherwise it starts
    the worker when the slot is falsy, and awaits the promise in the slot, pending or
    settled;
  \<^item> the transport settles a refresh request: the second part of the worker runs and its
    promise settles, which makes the continuations of the callers awaiting it ready, in the
    order of their arrival;
  \<^item> the first ready continuation runs: the caller returns or throws the outcome of the
    promise it awaited and, in its \<^verbatim>\<open>finally\<close> clause, sets the slot to \<^verbatim>\<open>null\<close>, whatever
    the slot holds by then.
  The state adds to the browser's the slot \<^verbatim>\<open>#worker\<close> (promises are numbered), the refresh
  requests that are with the transport, the promises that have settled with their outcomes,
  the callers suspended on a pending promise, the queue of ready continuations, each with the
  outcome it will see, and the outcome each caller that finished has observed.
\<close>

record coordinator =
  browser :: world
  worker :: "nat option"
  promises :: nat
  in_flight :: "(nat \<times> jsobj) list"
  settled :: "(nat \<times> (thrown + jsval)) list"
  awaiting :: "(nat \<times> nat) list"
  ready :: "(nat \<times> (thrown + jsval)) list"
  observed :: "(nat \<times> (thrown + jsval)) list"

datatype step = Call nat | Settle nat net_outcome | Resume | Elapse nat

text \<open>\<^verbatim>\<open>this.#worker = this.#_refreshingToken()\<close>: the first part of the worker runs, and the
  slot takes its promise, which is rejected already when the first part threw.\<close>

definition coordinator_start :: "env \<Rightarrow> coordinator \<Rightarrow> coordinator" where
  "coordinator_start env s =
     (case refreshing_begin env (browser s) of
        Inl err \<Rightarrow>
          s\<lparr>worker := Some (promises s), promises := Suc (promises s),
            settled := settled s @ [(promises s, Inl err)]\<rparr>
      | Inr (cfg, w1) \<Rightarrow>
          s\<lparr>browser := w1, worker := Some (promises s), promises := Suc (promises s),
            in_flight := in_flight s @ [(promises s, cfg)]\<rparr>)"

text \<open>\<^verbatim>\<open>await p\<close> by a caller.\<close>

definition coordinator_await :: "nat \<Rightarrow> nat \<Rightarrow> coordinator \<Rightarrow> coordinator" where
  "coordinator_await caller p s =
     (case map_of (settled s) p of
        Some r \<Rightarrow> s\<lparr>ready := ready s @ [(caller, r)]\<rparr>
      | None \<Rightarrow> s\<lparr>awaiting := awaiting s @ [(caller, p)]\<rparr>)"

definition coordinator_call :: "env \<Rightarrow> nat \<Rightarrow> coordinator \<Rightarrow> coordinator" where
  "coordinator_call env caller s =
     (let tokenObj = getLocalStorageToken (JSON_parse env) (storage (browser s)) in
      if tokenObj = JNull then
        s\<lparr>observed := observed s @ [(caller, Inl (new_error NoAuthTokenError []))]\<rparr>
      else
        case worker s of
          Some p \<Rightarrow> coordinator_await caller p s
        | None \<Rightarrow> coordinator_await caller (promises s) (coordinator_start env s))"

definition coordinator_settle :: "env \<Rightarrow> nat \<Rightarrow> net_outcome \<Rightarrow> coordinator \<Rightarrow> coordinator" where
  "coordinator_settle env p outcome s =
     (case map_of (in_flight s) p of
        None \<Rightarrow> s
      | Some cfg \<Rightarrow>
          (let (r, w') = refreshing_end env (browser s) cfg outcome;
               woken = filter (\<lambda>(c, q). q = p) (awaiting s)
           in s\<lparr>browser := w',
                in_flight := filter (\<lambda>(q, _). q \<noteq> p) (in_flight s),
                settled := settled s @ [(p, r)],
                awaiting := filter (\<lambda>(c, q). q \<noteq> p) (awaiting s),
                ready := ready s @ map (\<lambda>(c, q). (c, r)) woken\<rparr>))"

definition coordinator_resume :: "coordinator \<Rightarrow> coordinator" where
  "coordinator_resume s =
     (case ready s of
        [] \<Rightarrow> s
      | (caller, r) # rest \<Rightarrow>
          s\<lparr>ready := rest, observed := observed s @ [(caller, r)], worker := None\<rparr>)"

fun coordinator_step :: "env \<Rightarrow> step \<Rightarrow> coordinator \<Rightarrow> coordinator" where
  "coordinator_step env (Call caller) s = coordinator_call env caller s"
| "coordinator_step env (Settle p outcome) s = coordinator_settle env p outcome s"
| "coordinator_step env Resume s = coordinator_resume s"
| "coordinator_step env (Elapse d) s = s\<lparr>browser := advance d (browser s)\<rparr>"

fun coordinator_run :: "env \<Rightarrow> step list \<Rightarrow> coordinator \<Rightarrow> coordinator" where
  "coordinator_run env [] s = s"
| "coordinator_run env (e # es) s = coordinator_run env es (coordinator_step env e s)"

text \<open>The manager at rest, in a given browser state: the slot is empty, nothing is with the
  transport, nobody waits.\<close>

definition idle :: "world \<Rightarrow> coordinator" where
  "idle w =
     \<lparr>browser = w, worker = None, promises = 0, in_flight = [], settled = [], awaiting = [],
      ready = [], observed = []\<rparr>"

text \<open>The refresh requests handed to the transport, as the trace records them.\<close>

fun is_refresh :: "event \<Rightarrow> bool" where
  "is_refresh (RefreshPost url body cfg) = True"
| "is_refresh e = False"

definition refresh_calls :: "world \<Rightarrow> nat" where
  "refresh_calls w = length (filter is_refresh (trace w))"


fun is_navigation :: "event \<Rightarrow> bool" where
  "is_navigation (Navigate url) = True"
| "is_navigation e = False"

definition navigations :: "world \<Rightarrow> nat" where
  "navigations w = length (filter is_navigation (trace w))"

section \<open>The spec's default for failure notifications\<close>

text \<open>
  The interceptor notifies a business failure when \<^verbatim>\<open>!config.disableErrorNotification\<close>
  holds of the configuration it is given.
\<close>

definition pipeline_notifies :: "jsobj \<Rightarrow> bool" where
  "pipeline_notifies cfg = (\<not> truthy (obj_get cfg ''disableErrorNotification''))"


section \<open>A concrete environment\<close>

text \<open>
  An environment on which the definitions can be evaluated: two token records, a parser
  and a printer that know them, a payload convention (\<^verbatim>\<open>status\<close> is \<^verbatim>\<open>"OK"\<close>), and a
  network that answers the requests in the order given by a script.
\<close>

definition old_token :: jsval where
  "old_token =
     JObj [(''token'', JStr ''A''), (''refreshToken'', JStr ''R''), (''expireAt'', JNum 4000)]"

definition new_token :: jsval where
  "new_token =
     JObj [(''token'', JStr ''B''), (''refreshToken'', JStr ''S''), (''expireAt'', JNum 90000)]"

definition demo_parse :: "string \<Rightarrow> jsval option" where
  "demo_parse s =
     (if s = ''old'' then Some old_token
      else if s = ''new'' then Some new_token
      else if s = ''null'' then Some JNull
      else if s = ''7'' then Some (JNum 7)
      else None)"

definition demo_stringify :: "jsval \<Rightarrow> string" where
  "demo_stringify v =
     (if v = new_token then ''new'' else if v = old_token then ''old'' else ''undefined'')"

definition demo_text :: "jsval \<Rightarrow> string" where
  "demo_text v = (case v of JStr s \<Rightarrow> s | _ \<Rightarrow> ''?'')"

definition demo_success :: "jsval \<Rightarrow> bool" where
  "demo_success v = (js_get v ''status'' = JStr ''OK'')"

fun is_request :: "event \<Rightarrow> bool" where
  "is_request (NetRequest cfg) = True"
| "is_request (RefreshPost url body cfg) = True"
| "is_request e = False"

definition scripted :: "net_outcome list \<Rightarrow> event list \<Rightarrow> net_outcome" where
  "scripted answers tr =
     (let n = length (filter is_request tr) in
      if 0 < n \<and> n \<le> length answers then answers ! (n - 1) else NoAnswer ''Network Error'')"

definition demo_env :: "net_outcome list \<Rightarrow> env" where
  "demo_env answers =
     \<lparr>JSON_parse = demo_parse, JSON_stringify = demo_stringify, ToNumber = (\<lambda>v. None),
      ToString = demo_text, isReqSuccess = demo_success, titlePrefix = ''Error - '',
      net = scripted answers, latency = (\<lambda>tr. 10)\<rparr>"

definition demo_world :: "string option \<Rightarrow> world" where
  "demo_world item = \<lparr>storage = item, logoutTimeout = None, date_now = 5000, trace = []\<rparr>"

definition ok_payload :: "jsval \<Rightarrow> jsval" where
  "ok_payload d = JObj [(''status'', JStr ''OK''), (''code'', JStr ''CM000000''), (''data'', d)]"


definition orders_config :: jsval where
  "orders_config = JObj [(''endpoint'', JStr ''/orders''), (''method'', JStr ''get'')]"

section \<open>Auxiliary facts\<close>

text \<open>The equations of the pipeline are recursive; they are unfolded where needed.\<close>

declare axios_instance.simps [simp del] response_onReject.simps [simp del]

lemma obj_get_obj_set:
  "obj_get (obj_set kvs k v) k' = (if k' = k then v else obj_get kvs k')"
  by (simp add: obj_get_def obj_set_def update_conv')

lemma advance_advance: "advance d2 (advance d1 w) = advance (d1 + d2) w"
  by (cases "logoutTimeout w") (auto simp: advance_def Let_def add.assoc)

lemma trace_advance: "trace (advance d w) = trace w"
  by (simp add: advance_def Let_def)

lemma logout_fires:
  "logoutTimeout w = None \<Longrightarrow>
   UnauthorizedManager_logout w =
     w\<lparr>storage := None, logoutTimeout := Some (date_now w + LOGOUT_LOCK_TIME),
       trace := trace w @ [Navigate ''/'']\<rparr>"
  by (simp add: UnauthorizedManager_logout_def logout_def)

lemma logout_locked:
  "logoutTimeout w = Some due \<Longrightarrow> UnauthorizedManager_logout w = w"
  by (simp add: UnauthorizedManager_logout_def)

lemma refresh_calls_logout:
  "refresh_calls (UnauthorizedManager_logout w) = refresh_calls w"
  by (simp add: UnauthorizedManager_logout_def logout_def refresh_calls_def split: option.split)

lemma refresh_calls_advance: "refresh_calls (advance d w) = refresh_calls w"
  by (simp add: refresh_calls_def trace_advance)

lemma refreshing_catch_logs_out:
  "snd (refreshing_catch w err) = UnauthorizedManager_logout w"
  by (simp add: refreshing_catch_def Let_def)

lemma refreshing_catch_classifies:
  "fst (refreshing_catch w err) =
     Inl (if cls err = BEResponseError then err
          else if e_response err \<noteq> None then
            new_error Error ''Server responded with HTTP status code out of the range of 2xx''
          else if e_request err then new_error Error ''No response was received''
          else err)"
  by (simp add: refreshing_catch_def Let_def)

lemma refreshingToken_cases:
  assumes tok: "getLocalStorageToken (JSON_parse env) (storage w) = tokenObj"
    and present: "tokenObj \<noteq> JNull"
    and sent: "w1 = w\<lparr>trace := trace w @
        [RefreshPost URL_REFRESH_TOKEN (JObj [(''refreshToken'', js_get tokenObj ''refreshToken'')])
           (refresh_config tokenObj)]\<rparr>"
    and settled: "w2 = advance (latency env (trace w1)) w1"
  shows "refreshingToken env w =
     (case net env (trace w1) of
        Answer status body \<Rightarrow>
          if 200 \<le> status \<and> status < 300 then
            if isReqSuccess env body then
              if nullish body then
                (Inl (new_error TypeError ''Cannot destructure''), UnauthorizedManager_logout w2)
              else
                (Inr (js_get body ''data''),
                 w2\<lparr>storage := Some (JSON_stringify env (js_get body ''data''))\<rparr>)
            else
              (Inl (new_error BEResponseError ''Requesting refresh token fail''),
               UnauthorizedManager_logout w2)
          else
            (Inl (new_error Error
               ''Server responded with HTTP status code out of the range of 2xx''),
             UnauthorizedManager_logout w2)
      | NoAnswer msg \<Rightarrow>
          (Inl (new_error Error ''No response was received''), UnauthorizedManager_logout w2)
      | SetupFailure msg \<Rightarrow>
          (Inl \<lparr>cls = Error, e_message = msg, e_config = Some (refresh_config tokenObj),
                e_response = None, e_request = False, requestInterceptorError = None\<rparr>,
           UnauthorizedManager_logout w2)
      | Aborted msg \<Rightarrow>
          (Inl \<lparr>cls = Cancel, e_message = msg, e_config = None, e_response = None,
                e_request = False, requestInterceptorError = None\<rparr>,
           UnauthorizedManager_logout w2))"
proof -
  have started: "refreshing_begin env w = Inr (refresh_config tokenObj, w1)"
    using tok present sent by (simp add: refreshing_begin_def Let_def)
  have run: "refreshingToken env w
      = refreshing_end env w2 (refresh_config tokenObj) (net env (trace w1))"
    using tok present settled
    by (simp add: refreshingToken_def refreshingToken_worker_def started Let_def)
  show ?thesis
    unfolding run
    by (cases "net env (trace w1)")
      (simp_all add: refreshing_end_def axios_settle_def refreshing_catch_def Let_def
        new_error_def DEBUG_TOKEN_EXPIRED_AFTER_10_SEC_def)
qed

lemma onReject_retried:
  assumes "\<not> isCancel err"
    and "\<not> interceptorError_instanceof err NoAuthTokenError"
    and "status_is_401 err \<or> interceptorError_instanceof err AuthTokenExpiredError"
    and "e_config err = Some cfg"
    and "truthy (obj_get cfg ''retried'')"
  shows "response_onReject env w err =
     (Inl (ReqErr \<lparr>error = Some (new_error AuthTokenExpiredError
              ''The request have been retried, but still receive unauthorized error''),
            config = Some cfg, response = e_response err, isCancelled = None\<rparr>),
      UnauthorizedManager_logout w)"
  using assms by (subst response_onReject.simps) (auto simp: Let_def)

lemma refreshingToken_error_has_no_response:
  assumes "refreshingToken env w = (Inl err', w')"
  shows "e_response err' = None"
proof (cases "getLocalStorageToken (JSON_parse env) (storage w) = JNull")
  case True
  then show ?thesis
    using assms by (auto simp: refreshingToken_def new_error_def)
next
  case False
  show ?thesis
    using assms refreshingToken_cases [OF refl False refl refl]
    by (auto simp: new_error_def split: net_outcome.splits if_splits)
qed

lemma refreshingToken_error_config:
  assumes "refreshingToken env w = (Inl err', w')"
  shows "e_config err' = None
     \<or> e_config err' = Some (refresh_config (getLocalStorageToken (JSON_parse env) (storage w)))"
proof (cases "getLocalStorageToken (JSON_parse env) (storage w) = JNull")
  case True
  then show ?thesis
    using assms by (auto simp: refreshingToken_def new_error_def)
next
  case False
  show ?thesis
    using assms refreshingToken_cases [OF refl False refl refl]
    by (auto simp: new_error_def split: net_outcome.splits if_splits)
qed

lemma demo_token_old:
  "getLocalStorageToken (JSON_parse (demo_env answers)) (storage (demo_world (Some ''old'')))
     = old_token"
  by (simp add: demo_env_def demo_world_def getLocalStorageToken_def
      getLocalStorageToken_try_def item_text_def demo_parse_def old_token_def)

lemma demo_token_new:
  "getLocalStorageToken (JSON_parse (demo_env answers)) (storage (demo_world (Some ''new'')))
     = new_token"
  by (simp add: demo_env_def demo_world_def getLocalStorageToken_def
      getLocalStorageToken_try_def item_text_def demo_parse_def new_token_def)

lemma demo_refresh_500:
  "refreshingToken (demo_env [Answer 500 JNull]) (demo_world (Some ''old'')) =
     (Inl (new_error Error ''Server responded with HTTP status code out of the range of 2xx''),
      \<lparr>storage = None, logoutTimeout = Some 6010, date_now = 5010,
       trace = [RefreshPost URL_REFRESH_TOKEN (JObj [(''refreshToken'', JStr ''R'')])
                  [(''headers'', JObj [(''Access-Token'', JStr ''A'')])],
                Navigate ''/'']\<rparr>)"
proof -
  let ?env = "demo_env [Answer 500 JNull]" and ?w = "demo_world (Some ''old'')"
  let ?w1 = "?w\<lparr>trace := trace ?w @
        [RefreshPost URL_REFRESH_TOKEN (JObj [(''refreshToken'', js_get old_token ''refreshToken'')])
           (refresh_config old_token)]\<rparr>"
  have present: "old_token \<noteq> JNull"
    by (simp add: old_token_def)
  have answer: "net ?env (trace ?w1) = Answer 500 JNull"
    by (simp add: demo_env_def demo_world_def scripted_def)
  have lat: "latency ?env (trace ?w1) = 10"
    by (simp add: demo_env_def)
  show ?thesis
    using refreshingToken_cases [OF demo_token_old [of "[Answer 500 JNull]"] present refl refl, unfolded answer lat]
    by (simp add: demo_world_def advance_def Let_def logout_fires LOGOUT_LOCK_TIME_def
        old_token_def refresh_config_def obj_get_def)
qed

lemma map_of_obj_set:
  "map_of (obj_set kvs k v) k' = (if k' = k then Some v else map_of kvs k')"
  by (simp add: obj_set_def update_conv')

lemma map_of_pick:
  "map_of (pick (JObj kvs) paths) k = (if k \<in> set paths then map_of kvs k else None)"
proof (induction paths)
  case Nil
  show ?case by (simp add: pick_def)
next
  case (Cons p ps)
  then show ?case
    by (auto simp: pick_def split: option.splits)
qed


lemma pick_keys: "fst ` set (pick v paths) \<subseteq> set paths"
  by (cases v) (auto simp: pick_def split: option.splits)

lemma callApi_never_throws: "\<exists>r. fst (callApi env w cfg) = Returned r"
  by (simp add: callApi_def Let_def split: prod.split sum.split)

lemma callApiWithNotification_config:
  "options \<noteq> JNull \<Longrightarrow>
   fst (snd (callApiWithNotification env w cfg options)) =
     obj_set cfg ''disableErrorNotification''
       (js_coalesce (obj_get cfg ''disableErrorNotification'')
          (JBool (truthy (js_get options ''onFail''))))"
  by (simp add: callApiWithNotification_def Let_def split: prod.split sum.split)

lemma isTokenExpired_past:
  "js_get tokenObj ''expireAt'' = JNum e \<Longrightarrow> tokenObj \<noteq> JNull \<Longrightarrow>
   isTokenExpired conv t tokenObj = (e < t)"
  by (cases tokenObj) (simp_all add: isTokenExpired_def js_coalesce_def Let_def)

lemma storage_advance: "storage (advance d w) = storage w"
  by (simp add: advance_def Let_def)

lemma date_now_advance: "date_now (advance d w) = date_now w + int d"
  by (simp add: advance_def Let_def)

lemma map_of_spread:
  "map_of (spread base (JObj kvs)) k = (case map_of kvs k of None \<Rightarrow> map_of base k | Some v \<Rightarrow> Some v)"
  by (simp add: spread_def merge_conv' map_add_def)

lemma request_config_not_retried:
  "obj_get (request_config (pick cfg PATHS_WHITELIST)) ''retried'' = JUndefined"
proof -
  have "map_of (pick cfg PATHS_WHITELIST) ''retried'' = None"
    by (cases cfg) (simp_all add: map_of_pick PATHS_WHITELIST_def, simp_all add: pick_def)
  then show ?thesis
    by (simp add: request_config_def Let_def obj_get_def map_of_spread delete_conv')
qed

lemma demo_orders_request:
  "request_config (pick orders_config PATHS_WHITELIST)
     = [(''url'', JStr ''/orders''), (''method'', JStr ''get''), (''data'', JUndefined)]"
  by (simp add: request_config_def pick_def orders_config_def PATHS_WHITELIST_def obj_get_def
      spread_def Let_def)

lemma demo_parse_new:
  "getLocalStorageToken (JSON_parse (demo_env answers))
     (Some (JSON_stringify (demo_env answers) (js_get (ok_payload new_token) ''data'')))
     = new_token"
  by (simp add: demo_env_def getLocalStorageToken_def getLocalStorageToken_try_def item_text_def
      demo_parse_def demo_stringify_def ok_payload_def obj_get_def)
    (simp add: new_token_def)

lemma demo_scripted_first:
  "scripted (a # answers) (trace (demo_world item) @ [RefreshPost url body cfg]) = a"
  by (simp add: scripted_def demo_world_def)

lemma demo_scripted_second:
  "scripted (a # b # answers) (trace (demo_world item) @ [RefreshPost url body cfg, NetRequest cfg'])
     = b"
  by (simp add: scripted_def demo_world_def)

lemma refresh_calls_refreshing_end:
  "refresh_calls (snd (refreshing_end env w cfg outcome)) = refresh_calls w"
proof -
  have catch: "refresh_calls (snd (refreshing_catch w e)) = refresh_calls w" for e
    by (simp add: refreshing_catch_logs_out refresh_calls_logout)
  have store: "refresh_calls (w\<lparr>storage := x\<rparr>) = refresh_calls w" for x
    by (simp add: refresh_calls_def)
  show ?thesis
    by (cases "axios_settle env cfg outcome")
      (simp_all add: refreshing_end_def catch store DEBUG_TOKEN_EXPIRED_AFTER_10_SEC_def)
qed

lemma call_without_token:
  "getLocalStorageToken (JSON_parse env) (storage (browser s)) = JNull \<Longrightarrow>
   coordinator_call env caller s =
     s\<lparr>observed := observed s @ [(caller, Inl (new_error NoAuthTokenError []))]\<rparr>"
  by (simp add: coordinator_call_def)

lemma call_joins:
  "getLocalStorageToken (JSON_parse env) (storage (browser s)) \<noteq> JNull \<Longrightarrow>
   worker s = Some p \<Longrightarrow> map_of (settled s) p = None \<Longrightarrow>
   coordinator_call env caller s = s\<lparr>awaiting := awaiting s @ [(caller, p)]\<rparr>"
  by (simp add: coordinator_call_def coordinator_await_def)

lemma call_starts:
  assumes "getLocalStorageToken (JSON_parse env) (storage (browser s)) = tokenObj"
    and "tokenObj \<noteq> JNull" and "worker s = None"
    and "map_of (settled s) (promises s) = None"
  shows "coordinator_call env caller s =
     s\<lparr>browser := (browser s)\<lparr>trace := trace (browser s) @
          [RefreshPost URL_REFRESH_TOKEN
             (JObj [(''refreshToken'', js_get tokenObj ''refreshToken'')])
             (refresh_config tokenObj)]\<rparr>,
       worker := Some (promises s), promises := Suc (promises s),
       in_flight := in_flight s @ [(promises s, refresh_config tokenObj)],
       awaiting := awaiting s @ [(caller, promises s)]\<rparr>"
  using assms
  by (simp add: coordinator_call_def coordinator_start_def coordinator_await_def
      refreshing_begin_def Let_def)

lemma calls_join:
  "getLocalStorageToken (JSON_parse env) (storage (browser s)) \<noteq> JNull \<Longrightarrow>
   worker s = Some p \<Longrightarrow> map_of (settled s) p = None \<Longrightarrow>
   coordinator_run env (map Call cs) s = s\<lparr>awaiting := awaiting s @ map (\<lambda>c. (c, p)) cs\<rparr>"
proof (induction cs arbitrary: s)
  case Nil
  then show ?case by simp
next
  case (Cons c cs)
  let ?s = "s\<lparr>awaiting := awaiting s @ [(c, p)]\<rparr>"
  have "coordinator_run env (map Call (c # cs)) s = coordinator_run env (map Call cs) ?s"
    using Cons.prems by (simp add: call_joins)
  also have "\<dots> = ?s\<lparr>awaiting := awaiting ?s @ map (\<lambda>c. (c, p)) cs\<rparr>"
    using Cons.prems by (intro Cons.IH) simp_all
  finally show ?case by simp
qed

lemma resumes_all:
  "ready s = rs \<Longrightarrow> rs \<noteq> [] \<Longrightarrow>
   coordinator_run env (replicate (length rs) Resume) s =
     s\<lparr>ready := [], observed := observed s @ rs, worker := None\<rparr>"
proof (induction rs arbitrary: s)
  case Nil
  then show ?case by simp
next
  case (Cons x xs)
  obtain c r where x: "x = (c, r)"
    by (cases x)
  let ?s = "s\<lparr>ready := xs, observed := observed s @ [(c, r)], worker := None\<rparr>"
  have step: "coordinator_resume s = ?s"
    using Cons.prems(1) by (simp add: coordinator_resume_def x)
  show ?case
  proof (cases xs)
    case Nil
    then show ?thesis
      using step by (simp add: x)
  next
    case (Cons y ys)
    have "coordinator_run env (replicate (length xs) Resume) ?s =
        ?s\<lparr>ready := [], observed := observed ?s @ xs, worker := None\<rparr>"
      by (rule Cons.IH) (simp_all add: Cons)
    then show ?thesis
      using step by (simp add: x)
  qed
qed

text \<open>Callers that all arrive while the refresh is pending, and whose continuations run
  before anybody else calls, share one refresh request and one outcome, and leave the
  manager at rest.\<close>

lemma orderly_single_flight:
  assumes stored: "getLocalStorageToken (JSON_parse env) (storage w) = tokenObj"
    and present: "tokenObj \<noteq> JNull"
    and callers: "cs \<noteq> []"
    and ending: "refreshing_end env
        (advance d (w\<lparr>trace := trace w @
           [RefreshPost URL_REFRESH_TOKEN
              (JObj [(''refreshToken'', js_get tokenObj ''refreshToken'')])
              (refresh_config tokenObj)]\<rparr>))
        (refresh_config tokenObj) outcome = (r, w')"
  shows "coordinator_run env
           (map Call cs @ [Elapse d, Settle 0 outcome] @ replicate (length cs) Resume) (idle w)
         = \<lparr>browser = w', worker = None, promises = 1, in_flight = [], settled = [(0, r)],
            awaiting = [], ready = [], observed = map (\<lambda>c. (c, r)) cs\<rparr>"
proof -
  let ?post = "RefreshPost URL_REFRESH_TOKEN
      (JObj [(''refreshToken'', js_get tokenObj ''refreshToken'')]) (refresh_config tokenObj)"
  let ?w1 = "w\<lparr>trace := trace w @ [?post]\<rparr>"
  have run_append: "coordinator_run env (xs @ ys) s = coordinator_run env ys (coordinator_run env xs s)"
    for xs ys s
    by (induction xs arbitrary: s) simp_all
  obtain c0 rest where cs: "cs = c0 # rest"
    using callers by (cases cs) auto
  define s0 where "s0 = coordinator_call env c0 (idle w)"
  have s0: "s0 = \<lparr>browser = ?w1, worker = Some 0, promises = Suc 0,
      in_flight = [(0, refresh_config tokenObj)], settled = [], awaiting = [(c0, 0)],
      ready = [], observed = []\<rparr>"
    unfolding s0_def
    by (subst call_starts [OF _ present]) (simp_all add: idle_def stored)
  have "coordinator_run env (map Call cs) (idle w) = coordinator_run env (map Call rest) s0"
    by (simp add: cs s0_def)
  also have "\<dots> = s0\<lparr>awaiting := awaiting s0 @ map (\<lambda>c. (c, 0)) rest\<rparr>"
    by (rule calls_join) (simp_all add: s0 stored present)
  finally have s1: "coordinator_run env (map Call cs) (idle w) =
      \<lparr>browser = ?w1, worker = Some 0, promises = Suc 0,
       in_flight = [(0, refresh_config tokenObj)], settled = [],
       awaiting = map (\<lambda>c. (c, 0)) cs, ready = [], observed = []\<rparr>"
    by (simp add: s0 cs)
  have keep: "filter (\<lambda>(c, q). q = 0) (map (\<lambda>c. (c, 0::nat)) cs) = map (\<lambda>c. (c, 0)) cs"
    by (induction cs) simp_all
  have drop: "filter (\<lambda>(c, q). q \<noteq> 0) (map (\<lambda>c. (c, 0::nat)) cs) = []"
    by (induction cs) simp_all
  define s2 where "s2 = \<lparr>browser = w', worker = Some 0, promises = Suc 0, in_flight = [],
      settled = [(0, r)], awaiting = [], ready = map (\<lambda>c. (c, r)) cs, observed = []\<rparr>"
  have settle: "coordinator_run env [Elapse d, Settle 0 outcome]
      (coordinator_run env (map Call cs) (idle w)) = s2"
    by (simp add: s1 s2_def coordinator_settle_def ending keep drop comp_def)
  have "coordinator_run env (replicate (length (map (\<lambda>c. (c, r)) cs)) Resume) s2 =
      s2\<lparr>ready := [], observed := observed s2 @ map (\<lambda>c. (c, r)) cs, worker := None\<rparr>"
    by (rule resumes_all) (simp_all add: s2_def callers)
  then have "coordinator_run env (replicate (length cs) Resume) s2 =
      \<lparr>browser = w', worker = None, promises = 1, in_flight = [], settled = [(0, r)],
       awaiting = [], ready = [], observed = map (\<lambda>c. (c, r)) cs\<rparr>"
    by (simp add: s2_def)
  then show ?thesis
    by (simp only: run_append settle)
qed

text \<open>A call that runs alone through the three steps is \<^verbatim>\<open>refreshingToken\<close> as defined
  above.\<close>

lemma refreshingToken_single_call:
  assumes present: "getLocalStorageToken (JSON_parse env) (storage w) \<noteq> JNull"
    and s: "s = coordinator_step env (Call c) (idle w)"
  shows "browser (coordinator_run env
           [Elapse (latency env (trace (browser s))), Settle 0 (net env (trace (browser s))),
            Resume] s) = snd (refreshingToken env w)"
    and "observed (coordinator_run env
           [Elapse (latency env (trace (browser s))), Settle 0 (net env (trace (browser s))),
            Resume] s) = [(c, fst (refreshingToken env w))]"
    and "worker (coordinator_run env
           [Elapse (latency env (trace (browser s))), Settle 0 (net env (trace (browser s))),
            Resume] s) = None"
proof -
  have present': "getLocalStorageToken (JSON_parse env) (storage (browser (idle w))) \<noteq> JNull"
    using present by (simp add: idle_def)
  have empty: "worker (idle w) = None" "map_of (settled (idle w)) (promises (idle w)) = None"
    by (simp_all add: idle_def)
  have s': "s = \<lparr>browser = w\<lparr>trace := trace w @
          [RefreshPost URL_REFRESH_TOKEN
             (JObj [(''refreshToken'',
                js_get (getLocalStorageToken (JSON_parse env) (storage w)) ''refreshToken'')])
             (refresh_config (getLocalStorageToken (JSON_parse env) (storage w)))]\<rparr>,
      worker = Some 0, promises = Suc 0,
      in_flight = [(0, refresh_config (getLocalStorageToken (JSON_parse env) (storage w)))],
      settled = [], awaiting = [(c, 0)], ready = [], observed = []\<rparr>"
    using s by (simp add: call_starts [OF refl present' empty]) (simp add: idle_def)
  have seq: "refreshingToken env w =
      refreshing_end env (advance (latency env (trace (browser s))) (browser s))
        (refresh_config (getLocalStorageToken (JSON_parse env) (storage w)))
        (net env (trace (browser s)))"
    using present
    by (simp add: s' refreshingToken_def refreshingToken_worker_def refreshing_begin_def Let_def)
  show "browser (coordinator_run env
           [Elapse (latency env (trace (browser s))), Settle 0 (net env (trace (browser s))),
            Resume] s) = snd (refreshingToken env w)"
    unfolding seq
    by (simp add: s' coordinator_settle_def coordinator_resume_def split: prod.split)
  show "observed (coordinator_run env
           [Elapse (latency env (trace (browser s))), Settle 0 (net env (trace (browser s))),
            Resume] s) = [(c, fst (refreshingToken env w))]"
    unfolding seq
    by (simp add: s' coordinator_settle_def coordinator_resume_def split: prod.split)
  show "worker (coordinator_run env
           [Elapse (latency env (trace (browser s))), Settle 0 (net env (trace (browser s))),
            Resume] s) = None"
    by (simp add: s' coordinator_settle_def coordinator_resume_def split: prod.split)
qed

lemma expired_refreshes_and_resubmits:
  assumes needs_token: "\<not> truthy (obj_get cfg0 ''withoutAuth'')"
    and fresh: "\<not> truthy (obj_get cfg0 ''retried'')"
    and stored: "getLocalStorageToken (JSON_parse env) (storage w) = tokenObj"
    and present: "tokenObj \<noteq> JNull"
    and expired: "isTokenExpired (ToNumber env) (date_now w) tokenObj"
    and post: "post = RefreshPost URL_REFRESH_TOKEN
        (JObj [(''refreshToken'', js_get tokenObj ''refreshToken'')]) (refresh_config tokenObj)"
    and refreshed: "net env (trace w @ [post]) = Answer status payload"
      "200 \<le> status" "status < 300" "isReqSuccess env payload" "\<not> nullish payload"
    and w3: "w3 = (advance (latency env (trace w @ [post])) (w\<lparr>trace := trace w @ [post]\<rparr>))
        \<lparr>storage := Some (JSON_stringify env (js_get payload ''data''))\<rparr>"
  shows "request_onFulfilled env w cfg0
           = Inl (interceptor_reject cfg0 AuthTokenExpiredError ''Token is already expired'')"
    and "refreshingToken env w = (Inr (js_get payload ''data''), w3)"
    and "axios_instance env w cfg0 = axios_instance env w3 (obj_set cfg0 ''retried'' (JBool True))"
proof -
  let ?err = "interceptor_reject cfg0 AuthTokenExpiredError ''Token is already expired''"
  show pre: "request_onFulfilled env w cfg0 = Inl ?err"
    using needs_token stored present expired by (simp add: request_onFulfilled_def Let_def)
  show refresh: "refreshingToken env w = (Inr (js_get payload ''data''), w3)"
    using refreshingToken_cases [OF stored present refl refl] refreshed
    by (simp add: post w3)
  have reject: "response_onReject env w ?err
      = axios_instance env w3 (obj_set cfg0 ''retried'' (JBool True))"
    using fresh
    by (subst response_onReject.simps)
      (simp add: interceptor_reject_def isCancel_def interceptorError_instanceof_def
        status_is_401_def refresh Let_def)
  show "axios_instance env w cfg0 = axios_instance env w3 (obj_set cfg0 ''retried'' (JBool True))"
    by (subst axios_instance.simps) (simp add: pre reject)
qed

lemma authorized_request_succeeds:
  assumes needs_token: "\<not> truthy (obj_get cfg ''withoutAuth'')"
    and readable: "getLocalStorageToken (JSON_parse env) (storage w) = tokenObj"
      "tokenObj \<noteq> JNull" "\<not> isTokenExpired (ToNumber env) (date_now w) tokenObj"
    and cfg1: "cfg1 = set_header cfg ''Access-Token'' (js_get tokenObj ''token'')"
    and answered: "net env (trace w @ [NetRequest cfg1]) = Answer status payload"
      "200 \<le> status" "status < 300" "truthy payload" "isReqSuccess env payload"
  shows "fst (axios_instance env w cfg)
           = Inr \<lparr>r_status = status, r_data = payload, r_config = cfg1\<rparr>"
    and "trace (snd (axios_instance env w cfg)) = trace w @ [NetRequest cfg1]"
    and "storage (snd (axios_instance env w cfg)) = storage w"
proof -
  let ?resp = "\<lparr>r_status = status, r_data = payload, r_config = cfg1\<rparr>"
  define w4 where "w4 = w\<lparr>trace := trace w @ [NetRequest cfg1]\<rparr>"
  define w5 where "w5 = advance (latency env (trace w4)) w4"
  have w4: "trace w4 = trace w @ [NetRequest cfg1]"
    by (simp add: w4_def)
  have w5: "trace w5 = trace w @ [NetRequest cfg1]" "storage w5 = storage w"
    by (simp_all add: w5_def trace_advance storage_advance w4) (simp add: w4_def)
  have pre: "request_onFulfilled env w cfg = Inr cfg1"
    using needs_token readable by (simp add: request_onFulfilled_def Let_def cfg1)
  have settle: "axios_settle env cfg1 (net env (trace w4)) = Inr ?resp"
    using answered by (simp add: w4 axios_settle_def Let_def)
  have fulfilled: "response_onFulfilled env w5 ?resp = (Inr ?resp, w5)"
    using answered by (simp add: response_onFulfilled_def Let_def)
  have run: "axios_instance env w cfg = (Inr ?resp, w5)"
    by (subst axios_instance.simps)
      (simp add: pre Let_def w4_def [symmetric] w5_def [symmetric] settle fulfilled)
  show "fst (axios_instance env w cfg) = Inr ?resp"
    by (simp add: run)
  show "trace (snd (axios_instance env w cfg)) = trace w @ [NetRequest cfg1]"
    by (simp add: run w5)
  show "storage (snd (axios_instance env w cfg)) = storage w"
    by (simp add: run w5)
qed

lemma callApi_pipeline:
  "callApi env w cfg =
     (case axios_instance env w (request_config (pick cfg PATHS_WHITELIST)) of
        (Inr resp, w') \<Rightarrow> (Returned (Data (r_data resp)), w')
      | (Inl requestError, w') \<Rightarrow> (Returned (Caught requestError), w'))"
  by (simp add: callApi_def private_callApi_def Let_def)

lemma callApi_success:
  assumes "fst (axios_instance env w (request_config (pick cfg PATHS_WHITELIST))) = Inr resp"
  shows "fst (callApi env w cfg) = Returned (Data (r_data resp))"
    and "snd (callApi env w cfg)
           = snd (axios_instance env w (request_config (pick cfg PATHS_WHITELIST)))"
  using assms
  by (cases "axios_instance env w (request_config (pick cfg PATHS_WHITELIST))";
      simp add: callApi_pipeline)+

lemma demo_refreshed_world:
  "(advance (latency (demo_env answers) tr) (demo_world (Some ''old'')\<lparr>trace := tr'\<rparr>))
      \<lparr>storage := Some (JSON_stringify (demo_env answers) (js_get (ok_payload new_token) ''data''))\<rparr>
     = \<lparr>storage = Some ''new'', logoutTimeout = None, date_now = 5010, trace = tr'\<rparr>"
  by (simp add: demo_env_def demo_world_def advance_def Let_def demo_stringify_def ok_payload_def
      obj_get_def)

lemma demo_token_refreshed:
  "getLocalStorageToken (JSON_parse (demo_env answers)) (Some ''new'') = new_token"
  by (simp add: demo_env_def getLocalStorageToken_def getLocalStorageToken_try_def item_text_def
      demo_parse_def new_token_def)

lemma pipeline_classifies:
  shows "(\<forall>tr s b. net env tr = Answer s b \<and> 200 \<le> s \<and> s < 300 \<longrightarrow> \<not> nullish b) \<Longrightarrow>
         classified (axios_instance env w cfg)"
    and "(\<forall>tr s b. net env tr = Answer s b \<and> 200 \<le> s \<and> s < 300 \<longrightarrow> \<not> nullish b) \<Longrightarrow>
         e_config err \<noteq> None \<or> isCancel err \<Longrightarrow> classified (response_onReject env w err)"
proof (induction env w cfg and env w err rule: axios_instance_response_onReject.induct)
  case (1 env w cfg)
  note bodies = "1.prems"
  show ?case
  proof (cases "request_onFulfilled env w cfg")
    case (Inl err)
    then have "e_config err \<noteq> None"
      by (auto simp: request_onFulfilled_def interceptor_reject_def Let_def split: if_splits)
    then show ?thesis
      using "1.IH"(1) [OF Inl bodies] Inl by (subst axios_instance.simps) simp
  next
    case (Inr cfg')
    let ?w1 = "w\<lparr>trace := trace w @ [NetRequest cfg']\<rparr>"
    let ?w2 = "advance (latency env (trace ?w1)) ?w1"
    show ?thesis
    proof (cases "axios_settle env cfg' (net env (trace ?w1))")
      case (Inl err)
      then have "e_config err \<noteq> None \<or> isCancel err"
        by (auto simp: axios_settle_def isCancel_def Let_def split: net_outcome.splits if_splits)
      then show ?thesis
        using "1.IH"(2) [OF Inr refl refl Inl bodies] Inr Inl
        by (subst axios_instance.simps) (simp add: Let_def)
    next
      case right: (Inr resp)
      then have "\<not> nullish (r_data resp)"
        using bodies
        by (auto simp: axios_settle_def Let_def split: net_outcome.splits if_splits)
      then have "classified (response_onFulfilled env ?w2 resp)"
        by (simp add: response_onFulfilled_def Let_def)
      then show ?thesis
        using Inr right by (subst axios_instance.simps) (simp add: Let_def)
    qed
  qed
next
  case (2 env w err)
  show ?case
    using 2
    by (subst response_onReject.simps)
      (auto simp: Let_def isCancel_def split: option.splits prod.splits sum.splits)
qed

lemma callApi_classifies:
  assumes "\<forall>tr s b. net env tr = Answer s b \<and> 200 \<le> s \<and> s < 300 \<longrightarrow> \<not> nullish b"
  shows "(\<exists>payload. fst (callApi env w cfg) = Returned (Data payload))
     \<or> (\<exists>e. fst (callApi env w cfg) = Returned (Caught (ReqErr e)))"
proof -
  have "classified (axios_instance env w (request_config (pick cfg PATHS_WHITELIST)))"
    using assms by (rule pipeline_classifies(1))
  then show ?thesis
    by (cases "axios_instance env w (request_config (pick cfg PATHS_WHITELIST))"
        rule: classified.cases)
      (auto simp: callApi_pipeline split: sum.splits)
qed



lemma trace_displayFailNotification:
  "trace (displayFailNotification w (JObj info)) =
     trace w @ [Notification (if map_of info ''mode'' = None then JStr ''fail''
                              else obj_get info ''mode'')
                  (obj_get info ''title'') (obj_get info ''content'')]"
  by (simp add: displayFailNotification_def displayNotification_def obj_get_def map_of_spread
      split: option.split)

text \<open>The response interceptor dispatches its notification of a business failure exactly
  when \<open>pipeline_notifies\<close> holds of the configuration of the request.\<close>

lemma response_onFulfilled_notifies:
  assumes "\<not> nullish (r_data resp)"
    and "\<not> (truthy (r_data resp) \<and> isReqSuccess env (r_data resp))"
  shows "trace (snd (response_onFulfilled env w resp)) =
     trace w @
     (if pipeline_notifies (r_config resp) then
        [Notification (JStr ''fail'')
           (JStr (titlePrefix env @ ToString env (js_get (r_data resp) ''status'')))
           (js_or (js_get (r_data resp) ''message'') (JStr ''call api failed''))]
      else [])"
  using assms
  by (auto simp: response_onFulfilled_def Let_def pipeline_notifies_def
      trace_displayFailNotification obj_get_def)



section \<open>Properties of the token store\<close>

text \<open>
  C10. Reading the token never throws, whatever the store holds: every exception of the
  block is caught and answered with \<^verbatim>\<open>null\<close>. A text that does not parse gives
  \<^verbatim>\<open>null\<close>; a text that parses to a number, a string or a boolean gives \<^verbatim>\<open>null\<close>; a text
  that parses to a value of type \<^verbatim>\<open>object\<close> (\<^verbatim>\<open>null\<close>, an array, an object with or
  without the fields \<^verbatim>\<open>token\<close>, \<^verbatim>\<open>refreshToken\<close>, \<^verbatim>\<open>expireAt\<close>) is returned
  unchanged. The shape of the record is not validated.
\<close>

theorem getLocalStorageToken_no_validation:
  "getLocalStorageToken parse item =
     (case parse (item_text item) of
        None \<Rightarrow> JNull
      | Some JUndefined \<Rightarrow> JNull
      | Some JNull \<Rightarrow> JNull
      | Some (JBool b) \<Rightarrow> JNull
      | Some (JNum n) \<Rightarrow> JNull
      | Some (JStr t) \<Rightarrow> JNull
      | Some (JArr xs) \<Rightarrow> JArr xs
      | Some (JObj kvs) \<Rightarrow> JObj kvs)"
  by (simp add: getLocalStorageToken_def getLocalStorageToken_try_def
      split: option.split jsval.split)

section \<open>Properties of the logout lock\<close>

text \<open>
  C5. Starting with the lock free, a call of \<^verbatim>\<open>logout()\<close> clears the token and
  navigates; a second call less than 1000 ms after the first changes nothing, so the side
  effect has fired exactly once; a further call, made once 1000 ms have passed since the
  first, fires the side effect again. Time is the clock of the model, and the timer of the
  lock runs when it is due.
\<close>

theorem logout_cooldown:
  assumes free: "logoutTimeout w = None"
    and within: "int d1 < LOGOUT_LOCK_TIME"
    and after: "LOGOUT_LOCK_TIME \<le> int d1 + int d2"
  shows "storage (UnauthorizedManager_logout w) = None
     \<and> trace (UnauthorizedManager_logout w) = trace w @ [Navigate ''/'']
     \<and> UnauthorizedManager_logout (advance d1 (UnauthorizedManager_logout w))
         = advance d1 (UnauthorizedManager_logout w)
     \<and> trace (UnauthorizedManager_logout (advance d2
          (UnauthorizedManager_logout (advance d1 (UnauthorizedManager_logout w)))))
         = trace w @ [Navigate ''/'', Navigate ''/'']"
proof -
  let ?w1 = "UnauthorizedManager_logout w"
  have w1: "?w1 = w\<lparr>storage := None, logoutTimeout := Some (date_now w + LOGOUT_LOCK_TIME),
       trace := trace w @ [Navigate ''/'']\<rparr>"
    using free by (rule logout_fires)
  have held: "logoutTimeout (advance d1 ?w1) = Some (date_now w + LOGOUT_LOCK_TIME)"
    using within by (simp add: w1 advance_def Let_def)
  have second: "UnauthorizedManager_logout (advance d1 ?w1) = advance d1 ?w1"
    using held by (rule logout_locked)
  have released: "logoutTimeout (advance d2 (advance d1 ?w1)) = None"
    using after by (simp add: w1 advance_def Let_def)
  have third: "trace (UnauthorizedManager_logout (advance d2 (advance d1 ?w1)))
      = trace w @ [Navigate ''/'', Navigate ''/'']"
    by (simp add: logout_fires [OF released]) (simp add: w1 advance_def Let_def)
  show ?thesis
    using w1 second third by simp
qed

theorem logout_cooldown_witness:
  "trace (UnauthorizedManager_logout (advance 999 (UnauthorizedManager_logout (demo_world (Some ''new'')))))
     = [Navigate ''/'']
   \<and> trace (UnauthorizedManager_logout (advance 1 (UnauthorizedManager_logout
        (advance 999 (UnauthorizedManager_logout (demo_world (Some ''new'')))))))
     = [Navigate ''/'', Navigate ''/'']"
proof -
  have free: "logoutTimeout (demo_world (Some ''new'')) = None"
    by (simp add: demo_world_def)
  have within: "int 999 < LOGOUT_LOCK_TIME" and after: "LOGOUT_LOCK_TIME \<le> int 999 + int 1"
    by (simp_all add: LOGOUT_LOCK_TIME_def)
  let ?w = "demo_world (Some ''new'')"
  note r = logout_cooldown [OF free within after]
  from r have a: "trace (UnauthorizedManager_logout ?w) = trace ?w @ [Navigate ''/'']"
    by blast
  from r have b: "UnauthorizedManager_logout (advance 999 (UnauthorizedManager_logout ?w))
      = advance 999 (UnauthorizedManager_logout ?w)"
    by blast
  from r have c: "trace (UnauthorizedManager_logout (advance 1 (UnauthorizedManager_logout
        (advance 999 (UnauthorizedManager_logout ?w))))) = trace ?w @ [Navigate ''/'', Navigate ''/'']"
    by blast
  have e: "trace ?w = []"
    by (simp add: demo_world_def)
  show ?thesis
    using a c by (simp only: b trace_advance e append_Nil)
qed

section \<open>Properties of the refresh operation\<close>

text \<open>
  C3, as the code has it. \<^verbatim>\<open>refreshingToken\<close> is characterised for every content of the
  store and every answer of the transport. When no token record is stored, it throws
  \<open>NoAuthTokenError\<close> before anything else happens: no request is made and
  \<^verbatim>\<open>UnauthorizedManager.logout()\<close> is not called. When a record is stored, one refresh
  request is handed to the transport, and every way in which the operation then fails ends
  with \<^verbatim>\<open>UnauthorizedManager.logout()\<close> having been called in the state in which the answer
  arrived. The error thrown is then: the \<open>BEResponseError\<close> raised for a payload that does
  not signal success, unchanged; a plain \<open>Error\<close> for an answer whose status is outside
  200..299; a plain \<open>Error\<close> with the message \<^verbatim>\<open>No response was received\<close> (not a
  \<open>ServerNoResponseError\<close>) when the request was sent and nothing came back; the error itself
  in every other case. A successful refresh does not log out.
\<close>

theorem refresh_failure_logs_out:
  assumes tok: "getLocalStorageToken (JSON_parse env) (storage w) = tokenObj"
    and sent: "w1 = w\<lparr>trace := trace w @
        [RefreshPost URL_REFRESH_TOKEN (JObj [(''refreshToken'', js_get tokenObj ''refreshToken'')])
           (refresh_config tokenObj)]\<rparr>"
    and settled: "w2 = advance (latency env (trace w1)) w1"
  shows "refreshingToken env w =
     (if tokenObj = JNull then (Inl (new_error NoAuthTokenError []), w)
      else
        case net env (trace w1) of
          Answer status body \<Rightarrow>
            if 200 \<le> status \<and> status < 300 then
              if isReqSuccess env body then
                if nullish body then
                  (Inl (new_error TypeError ''Cannot destructure''), UnauthorizedManager_logout w2)
                else
                  (Inr (js_get body ''data''),
                   w2\<lparr>storage := Some (JSON_stringify env (js_get body ''data''))\<rparr>)
              else
                (Inl (new_error BEResponseError ''Requesting refresh token fail''),
                 UnauthorizedManager_logout w2)
            else
              (Inl (new_error Error
                 ''Server responded with HTTP status code out of the range of 2xx''),
               UnauthorizedManager_logout w2)
        | NoAnswer msg \<Rightarrow>
            (Inl (new_error Error ''No response was received''), UnauthorizedManager_logout w2)
        | SetupFailure msg \<Rightarrow>
            (Inl \<lparr>cls = Error, e_message = msg, e_config = Some (refresh_config tokenObj),
                  e_response = None, e_request = False, requestInterceptorError = None\<rparr>,
             UnauthorizedManager_logout w2)
        | Aborted msg \<Rightarrow>
            (Inl \<lparr>cls = Cancel, e_message = msg, e_config = None, e_response = None,
                  e_request = False, requestInterceptorError = None\<rparr>,
             UnauthorizedManager_logout w2))"
proof (cases "tokenObj = JNull")
  case True
  then show ?thesis
    using tok by (simp add: refreshingToken_def)
next
  case False
  then show ?thesis
    using refreshingToken_cases [OF tok False sent settled] by simp
qed

theorem refresh_failure_logs_out_witness:
  "refreshingToken (demo_env [Answer 500 JNull]) (demo_world (Some ''old'')) =
     (Inl (new_error Error ''Server responded with HTTP status code out of the range of 2xx''),
      \<lparr>storage = None, logoutTimeout = Some 6010, date_now = 5010,
       trace = [RefreshPost URL_REFRESH_TOKEN (JObj [(''refreshToken'', JStr ''R'')])
                  [(''headers'', JObj [(''Access-Token'', JStr ''A'')])],
                Navigate ''/'']\<rparr>)"
proof -
  let ?env = "demo_env [Answer 500 JNull]" and ?w = "demo_world (Some ''old'')"
  let ?w1 = "?w\<lparr>trace := trace ?w @
        [RefreshPost URL_REFRESH_TOKEN (JObj [(''refreshToken'', js_get old_token ''refreshToken'')])
           (refresh_config old_token)]\<rparr>"
  have tok: "getLocalStorageToken (JSON_parse ?env) (storage ?w) = old_token"
    by (simp add: demo_env_def demo_world_def getLocalStorageToken_def
        getLocalStorageToken_try_def item_text_def demo_parse_def old_token_def)
  have present: "(old_token = JNull) = False"
    by (simp add: old_token_def)
  have answer: "net ?env (trace ?w1) = Answer 500 JNull"
    by (simp add: demo_env_def demo_world_def scripted_def)
  have lat: "latency ?env (trace ?w1) = 10"
    by (simp add: demo_env_def)
  show ?thesis
    using refresh_failure_logs_out [OF tok refl refl, unfolded answer lat present]
    by (simp add: demo_world_def advance_def Let_def logout_fires LOGOUT_LOCK_TIME_def
        old_token_def refresh_config_def obj_get_def)
qed

text \<open>
  The claim as stated fails: with nothing in the store the refresh operation fails, and
  nothing is cleared and the page is not sent anywhere, where a call of
  \<^verbatim>\<open>UnauthorizedManager.logout()\<close> in that state would navigate.
\<close>

theorem refresh_without_token_counterexample:
  "refreshingToken (demo_env []) (demo_world None)
     = (Inl (new_error NoAuthTokenError []), demo_world None)
   \<and> navigations (snd (refreshingToken (demo_env []) (demo_world None))) = 0
   \<and> navigations (UnauthorizedManager_logout (demo_world None)) = 1"
  by (simp add: refreshingToken_def demo_env_def demo_world_def getLocalStorageToken_def
      getLocalStorageToken_try_def item_text_def demo_parse_def navigations_def logout_fires)

section \<open>Properties of the response interceptor\<close>

text \<open>
  C4. A request whose configuration is marked \<^verbatim>\<open>retried\<close> and which is rejected before
  it is sent because the token is expired, or which is sent and answered with status 401, ends
  there: \<^verbatim>\<open>UnauthorizedManager.logout()\<close> is called, the request is rejected with a
  \<open>RequestError\<close> that holds an \<open>AuthTokenExpiredError\<close>, and no refresh request is handed
  to the transport.
\<close>

theorem retried_unauthorized_is_terminal:
  assumes retried: "truthy (obj_get cfg ''retried'')"
  shows "(request_onFulfilled env w cfg
            = Inl (interceptor_reject cfg AuthTokenExpiredError ''Token is already expired'') \<longrightarrow>
          axios_instance env w cfg =
            (Inl (ReqErr \<lparr>error = Some (new_error AuthTokenExpiredError
                     ''The request have been retried, but still receive unauthorized error''),
                   config = Some cfg, response = None, isCancelled = None\<rparr>),
             UnauthorizedManager_logout w)
          \<and> refresh_calls (snd (axios_instance env w cfg)) = refresh_calls w)
     \<and> (request_onFulfilled env w cfg = Inr cfg'
          \<and> net env (trace w @ [NetRequest cfg']) = Answer 401 body \<longrightarrow>
          axios_instance env w cfg =
            (Inl (ReqErr \<lparr>error = Some (new_error AuthTokenExpiredError
                     ''The request have been retried, but still receive unauthorized error''),
                   config = Some cfg',
                   response = Some \<lparr>r_status = 401, r_data = body, r_config = cfg'\<rparr>,
                   isCancelled = None\<rparr>),
             UnauthorizedManager_logout
               (advance (latency env (trace w @ [NetRequest cfg']))
                  (w\<lparr>trace := trace w @ [NetRequest cfg']\<rparr>)))
          \<and> refresh_calls (snd (axios_instance env w cfg)) = refresh_calls w)"
proof (intro conjI impI)
  let ?terminal = "new_error AuthTokenExpiredError
      ''The request have been retried, but still receive unauthorized error''"
  {
    assume pre: "request_onFulfilled env w cfg
        = Inl (interceptor_reject cfg AuthTokenExpiredError ''Token is already expired'')"
    let ?err = "interceptor_reject cfg AuthTokenExpiredError ''Token is already expired''"
    have "response_onReject env w ?err =
        (Inl (ReqErr \<lparr>error = Some ?terminal, config = Some cfg, response = e_response ?err,
                isCancelled = None\<rparr>), UnauthorizedManager_logout w)"
      by (rule onReject_retried)
        (simp_all add: retried interceptor_reject_def isCancel_def
          interceptorError_instanceof_def)
    then show run1: "axios_instance env w cfg =
        (Inl (ReqErr \<lparr>error = Some ?terminal, config = Some cfg, response = None,
                isCancelled = None\<rparr>), UnauthorizedManager_logout w)"
      by (subst axios_instance.simps) (simp add: pre interceptor_reject_def)
    show "refresh_calls (snd (axios_instance env w cfg)) = refresh_calls w"
      by (simp add: run1 refresh_calls_logout)
  }
  {
    assume sent: "request_onFulfilled env w cfg = Inr cfg'
        \<and> net env (trace w @ [NetRequest cfg']) = Answer 401 body"
    let ?resp = "\<lparr>r_status = 401, r_data = body, r_config = cfg'\<rparr>"
    let ?err = "\<lparr>cls = Error,
        e_message = ''Request failed with status code '' @ ToString env (JNum 401),
        e_config = Some cfg', e_response = Some ?resp, e_request = True,
        requestInterceptorError = None\<rparr>"
    let ?w2 = "advance (latency env (trace w @ [NetRequest cfg']))
        (w\<lparr>trace := trace w @ [NetRequest cfg']\<rparr>)"
    have same: "obj_get cfg' ''retried'' = obj_get cfg ''retried''"
      using sent
      by (auto simp: request_onFulfilled_def Let_def set_header_def obj_get_obj_set
          split: if_splits)
    have "response_onReject env ?w2 ?err =
        (Inl (ReqErr \<lparr>error = Some ?terminal, config = Some cfg', response = e_response ?err,
                isCancelled = None\<rparr>), UnauthorizedManager_logout ?w2)"
      by (rule onReject_retried)
        (simp_all add: retried same isCancel_def interceptorError_instanceof_def
          status_is_401_def)
    then show run2: "axios_instance env w cfg =
        (Inl (ReqErr \<lparr>error = Some ?terminal, config = Some cfg', response = Some ?resp,
                isCancelled = None\<rparr>), UnauthorizedManager_logout ?w2)"
      using sent by (subst axios_instance.simps) (simp add: axios_settle_def Let_def)
    show "refresh_calls (snd (axios_instance env w cfg)) = refresh_calls w"
      by (simp add: run2 refresh_calls_logout refresh_calls_advance) (simp add: refresh_calls_def)
  }
qed

theorem retried_unauthorized_is_terminal_witness:
  "axios_instance (demo_env []) (demo_world (Some ''old''))
       [(''url'', JStr ''/orders''), (''retried'', JBool True)] =
     (Inl (ReqErr \<lparr>error = Some (new_error AuthTokenExpiredError
              ''The request have been retried, but still receive unauthorized error''),
            config = Some [(''url'', JStr ''/orders''), (''retried'', JBool True)],
            response = None, isCancelled = None\<rparr>),
      UnauthorizedManager_logout (demo_world (Some ''old'')))
   \<and> fst (axios_instance (demo_env [Answer 401 JNull]) (demo_world (Some ''new''))
       [(''url'', JStr ''/orders''), (''retried'', JBool True)]) =
     Inl (ReqErr \<lparr>error = Some (new_error AuthTokenExpiredError
              ''The request have been retried, but still receive unauthorized error''),
            config = Some [(''url'', JStr ''/orders''), (''retried'', JBool True),
                           (''headers'', JObj [(''Access-Token'', JStr ''B'')])],
            response = Some \<lparr>r_status = 401, r_data = JNull,
                         r_config = [(''url'', JStr ''/orders''), (''retried'', JBool True),
                           (''headers'', JObj [(''Access-Token'', JStr ''B'')])]\<rparr>,
            isCancelled = None\<rparr>)"
proof -
  let ?cfg = "[(''url'', JStr ''/orders''), (''retried'', JBool True)]"
  let ?cfg' = "[(''url'', JStr ''/orders''), (''retried'', JBool True),
      (''headers'', JObj [(''Access-Token'', JStr ''B'')])]"
  have retried: "truthy (obj_get ?cfg ''retried'')"
    by (simp add: obj_get_def)
  have expired: "request_onFulfilled (demo_env []) (demo_world (Some ''old'')) ?cfg
      = Inl (interceptor_reject ?cfg AuthTokenExpiredError ''Token is already expired'')"
    by (simp add: request_onFulfilled_def demo_token_old Let_def obj_get_def)
      (simp add: old_token_def isTokenExpired_def js_coalesce_def obj_get_def demo_world_def
        demo_env_def)
  have passes: "request_onFulfilled (demo_env [Answer 401 JNull]) (demo_world (Some ''new'')) ?cfg
      = Inr ?cfg'"
    by (simp add: request_onFulfilled_def demo_token_new Let_def obj_get_def)
      (simp add: new_token_def isTokenExpired_def js_coalesce_def obj_get_def demo_world_def
        demo_env_def set_header_def obj_set_def)
  have answered: "net (demo_env [Answer 401 JNull])
      (trace (demo_world (Some ''new'')) @ [NetRequest ?cfg']) = Answer 401 JNull"
    by (simp add: demo_env_def demo_world_def scripted_def)
  note r1 = retried_unauthorized_is_terminal [OF retried, of "demo_env []"
      "demo_world (Some ''old'')" ?cfg' JNull]
  note r2 = retried_unauthorized_is_terminal [OF retried, of "demo_env [Answer 401 JNull]"
      "demo_world (Some ''new'')" ?cfg' JNull]
  from r1 expired have a: "axios_instance (demo_env []) (demo_world (Some ''old'')) ?cfg =
     (Inl (ReqErr \<lparr>error = Some (new_error AuthTokenExpiredError
              ''The request have been retried, but still receive unauthorized error''),
            config = Some ?cfg, response = None, isCancelled = None\<rparr>),
      UnauthorizedManager_logout (demo_world (Some ''old'')))"
    by blast
  from r2 passes answered
  have b: "fst (axios_instance (demo_env [Answer 401 JNull]) (demo_world (Some ''new'')) ?cfg) =
     Inl (ReqErr \<lparr>error = Some (new_error AuthTokenExpiredError
              ''The request have been retried, but still receive unauthorized error''),
            config = Some ?cfg',
            response = Some \<lparr>r_status = 401, r_data = JNull, r_config = ?cfg'\<rparr>,
            isCancelled = None\<rparr>)"
    by simp
  show ?thesis
    using a b by (rule conjI)
qed

text \<open>
  C8. When an unauthorized request that has not been retried goes to the refresh and the
  refresh fails, the request is rejected with a \<open>RequestError\<close> whose \<^verbatim>\<open>error\<close> is the error
  of the refresh and whose \<^verbatim>\<open>config\<close> and \<^verbatim>\<open>response\<close> are read from that same error (the
  parameter of the \<^verbatim>\<open>catch\<close> clause hides the error of the request). The result does not
  mention the configuration or the response of the request, and its \<^verbatim>\<open>response\<close> is
  always \<^verbatim>\<open>undefined\<close>, since an error of the refresh never carries one; its
  \<^verbatim>\<open>config\<close> is \<^verbatim>\<open>undefined\<close> or the configuration of the refresh request.
\<close>

theorem refresh_failure_hides_request:
  assumes "\<not> isCancel err"
    and "\<not> interceptorError_instanceof err NoAuthTokenError"
    and "status_is_401 err \<or> interceptorError_instanceof err AuthTokenExpiredError"
    and "e_config err = Some cfg"
    and "\<not> truthy (obj_get cfg ''retried'')"
    and "refreshingToken env w = (Inl err', w')"
  shows "response_onReject env w err =
     (Inl (ReqErr \<lparr>error = Some err', config = e_config err', response = e_response err',
            isCancelled = None\<rparr>), w')
     \<and> e_response err' = None
     \<and> (e_config err' = None
        \<or> e_config err'
            = Some (refresh_config (getLocalStorageToken (JSON_parse env) (storage w))))"
  using assms refreshingToken_error_has_no_response [of env w err' w']
    refreshingToken_error_config [of env w err' w']
  by (subst response_onReject.simps) (auto simp: Let_def)

theorem refresh_failure_hides_request_witness:
  "response_onReject (demo_env [Answer 500 JNull]) (demo_world (Some ''old''))
       (interceptor_reject [(''url'', JStr ''/orders'')] AuthTokenExpiredError
          ''Token is already expired'') =
     (Inl (ReqErr \<lparr>error = Some (new_error Error
              ''Server responded with HTTP status code out of the range of 2xx''),
            config = None, response = None, isCancelled = None\<rparr>),
      \<lparr>storage = None, logoutTimeout = Some 6010, date_now = 5010,
       trace = [RefreshPost URL_REFRESH_TOKEN (JObj [(''refreshToken'', JStr ''R'')])
                  [(''headers'', JObj [(''Access-Token'', JStr ''A'')])],
                Navigate ''/'']\<rparr>)"
proof -
  let ?cfg = "[(''url'', JStr ''/orders'')]"
  let ?err = "interceptor_reject ?cfg AuthTokenExpiredError ''Token is already expired''"
  have h1: "\<not> isCancel ?err"
    by (simp add: isCancel_def interceptor_reject_def)
  have h2: "\<not> interceptorError_instanceof ?err NoAuthTokenError"
    by (simp add: interceptorError_instanceof_def interceptor_reject_def)
  have h3: "status_is_401 ?err \<or> interceptorError_instanceof ?err AuthTokenExpiredError"
    by (simp add: interceptorError_instanceof_def interceptor_reject_def)
  have h4: "e_config ?err = Some ?cfg"
    by (simp add: interceptor_reject_def)
  have h5: "\<not> truthy (obj_get ?cfg ''retried'')"
    by (simp add: obj_get_def)
  show ?thesis
    using refresh_failure_hides_request [OF h1 h2 h3 h4 h5 demo_refresh_500]
    by (simp add: new_error_def)
qed

section \<open>Properties of the facade\<close>

text \<open>
  C6. \<^verbatim>\<open>callApi\<close> never throws: its \<^verbatim>\<open>catch\<close> clause returns whatever was caught
  (\<open>callApi_never_throws\<close>), and the configuration it passes on holds whitelisted
  properties only (\<open>pick_keys\<close>). What it returns is the payload or a \<open>RequestError\<close> as
  long as no answer within 200..299 has the body \<^verbatim>\<open>null\<close> (\<open>callApi_classifies\<close>). When
  the server does answer so, the response interceptor throws a TypeError while destructuring
  the payload, and \<^verbatim>\<open>callApi\<close> returns that TypeError, which is no \<open>RequestError\<close>:
\<close>

theorem callApi_null_payload:
  "fst (callApi (demo_env [Answer 200 JNull]) (demo_world (Some ''new'')) orders_config) =
     Returned (Caught (Raw (new_error TypeError ''Cannot destructure'')))"
proof -
  let ?env = "demo_env [Answer 200 JNull]" and ?w = "demo_world (Some ''new'')"
  let ?cfg = "[(''url'', JStr ''/orders''), (''method'', JStr ''get''), (''data'', JUndefined)]"
  let ?cfg' = "?cfg @ [(''headers'', JObj [(''Access-Token'', JStr ''B'')])]"
  have built: "private_callApi ?env ?w (pick orders_config PATHS_WHITELIST)
      = axios_instance ?env ?w ?cfg"
    by (simp add: private_callApi_def request_config_def pick_def orders_config_def
        PATHS_WHITELIST_def obj_get_def spread_def Let_def)
  have passes: "request_onFulfilled ?env ?w ?cfg = Inr ?cfg'"
    by (simp add: request_onFulfilled_def demo_token_new Let_def obj_get_def)
      (simp add: new_token_def isTokenExpired_def js_coalesce_def obj_get_def demo_world_def
        demo_env_def set_header_def obj_set_def)
  have answered: "net ?env (trace ?w @ [NetRequest c]) = Answer 200 JNull" for c
    by (simp add: demo_env_def demo_world_def scripted_def)
  have "fst (axios_instance ?env ?w ?cfg) = Inl (Raw (new_error TypeError ''Cannot destructure''))"
    by (subst axios_instance.simps)
      (simp add: passes answered axios_settle_def response_onFulfilled_def Let_def)
  then show ?thesis
    by (auto simp: callApi_def Let_def built split: prod.split sum.split)
qed




text \<open>
  C9. \<^verbatim>\<open>callApiWithNotification\<close> assigns to the property \<^verbatim>\<open>disableErrorNotification\<close>
  of the caller's configuration object, and to nothing else of it: every other property reads
  as before, and the property written is there when the call has returned, also when it was
  absent before. The write comes first: the request is made from the object as written.
\<close>

theorem callApiWithNotification_writes_one_field:
  assumes "options \<noteq> JNull"
    and "cfg' = fst (snd (callApiWithNotification env w cfg options))"
  shows "(\<forall>k. k \<noteq> ''disableErrorNotification'' \<longrightarrow> map_of cfg' k = map_of cfg k)
     \<and> map_of cfg' ''disableErrorNotification''
         = Some (js_coalesce (obj_get cfg ''disableErrorNotification'')
                   (JBool (truthy (js_get options ''onFail''))))
     \<and> fst (callApiWithNotification env w cfg options)
         = (case fst (private_callApi env w (pick (JObj cfg') PATHS_WHITELIST)) of
              Inr resp \<Rightarrow> Returned (Data (r_data resp))
            | Inl requestError \<Rightarrow> Returned (Caught requestError))"
proof -
  have cfg': "cfg' = obj_set cfg ''disableErrorNotification''
      (js_coalesce (obj_get cfg ''disableErrorNotification'')
         (JBool (truthy (js_get options ''onFail''))))"
    using assms by (simp add: callApiWithNotification_config)
  have "fst (callApiWithNotification env w cfg options)
      = (case fst (private_callApi env w (pick (JObj cfg') PATHS_WHITELIST)) of
           Inr resp \<Rightarrow> Returned (Data (r_data resp))
         | Inl requestError \<Rightarrow> Returned (Caught requestError))"
    using assms(1) unfolding cfg'
    by (simp add: callApiWithNotification_def Let_def split: prod.split sum.split)
  then show ?thesis
    by (simp add: cfg' map_of_obj_set)
qed

theorem callApiWithNotification_writes_one_field_witness:
  "map_of (fst (snd (callApiWithNotification (demo_env []) (demo_world None)
       [(''endpoint'', JStr ''/orders''), (''extra'', JNum 1)] JUndefined))) ''endpoint''
     = Some (JStr ''/orders'')
   \<and> map_of (fst (snd (callApiWithNotification (demo_env []) (demo_world None)
       [(''endpoint'', JStr ''/orders''), (''extra'', JNum 1)] JUndefined))) ''extra''
     = Some (JNum 1)
   \<and> map_of (fst (snd (callApiWithNotification (demo_env []) (demo_world None)
       [(''endpoint'', JStr ''/orders''), (''extra'', JNum 1)] JUndefined)))
       ''disableErrorNotification''
     = Some (JBool False)"
proof -
  let ?cfg = "[(''endpoint'', JStr ''/orders''), (''extra'', JNum 1)]"
  have "JUndefined \<noteq> JNull"
    by simp
  note r = callApiWithNotification_writes_one_field [OF this refl,
      of "demo_env []" "demo_world None" ?cfg]
  from r have a: "\<forall>k. k \<noteq> ''disableErrorNotification'' \<longrightarrow>
      map_of (fst (snd (callApiWithNotification (demo_env []) (demo_world None) ?cfg JUndefined))) k
        = map_of ?cfg k"
    by blast
  from r have b: "map_of (fst (snd (callApiWithNotification (demo_env []) (demo_world None) ?cfg
        JUndefined))) ''disableErrorNotification''
      = Some (js_coalesce (obj_get ?cfg ''disableErrorNotification'')
                (JBool (truthy (js_get JUndefined ''onFail''))))"
    by blast
  show ?thesis
    using a b by (simp add: js_coalesce_def obj_get_def)
qed

section \<open>Properties of the coordinator\<close>


section \<open>The refresh-and-retry scenario\<close>

text \<open>
  C2, as the code has it. An authenticated call of \<^verbatim>\<open>callApi\<close> finds a stored token
  record whose \<^verbatim>\<open>expireAt\<close> is in the past; a request made by \<^verbatim>\<open>callApi\<close> is never
  marked \<^verbatim>\<open>retried\<close> at first, the whitelist dropping the property. The request
  interceptor rejects the request with \<open>AuthTokenExpiredError\<close>, so nothing is sent for it;
  \<^verbatim>\<open>refreshingToken\<close> runs once and hands one refresh request to the transport; when the
  refresh succeeds the store holds the refreshed record; the outcome of the call is then the
  outcome of one more run of the same request, marked \<^verbatim>\<open>retried\<close>, in the state the
  refresh left. When that run passes the interceptor and the transport answers it with a
  successful payload, \<^verbatim>\<open>callApi\<close> returns the \<^verbatim>\<open>data\<close> field of the response, which is
  the payload itself (the whole body), not the property \<^verbatim>\<open>data\<close> of the payload.
\<close>

theorem expired_token_refresh_and_retry:
  assumes cfg0: "cfg0 = request_config (pick cfg PATHS_WHITELIST)"
    and needs_token: "\<not> truthy (obj_get cfg0 ''withoutAuth'')"
    and stored: "getLocalStorageToken (JSON_parse env) (storage w) = tokenObj"
    and expireAt: "js_get tokenObj ''expireAt'' = JNum expireAt"
    and past: "expireAt < date_now w"
    and post: "post = RefreshPost URL_REFRESH_TOKEN
        (JObj [(''refreshToken'', js_get tokenObj ''refreshToken'')]) (refresh_config tokenObj)"
    and refreshed: "net env (trace w @ [post]) = Answer status payload"
    and status: "200 \<le> status \<and> status < 300"
    and success: "isReqSuccess env payload \<and> \<not> nullish payload"
    and w3: "w3 = (advance (latency env (trace w @ [post])) (w\<lparr>trace := trace w @ [post]\<rparr>))
        \<lparr>storage := Some (JSON_stringify env (js_get payload ''data''))\<rparr>"
    and cfgr: "cfgr = obj_set cfg0 ''retried'' (JBool True)"
    and cfg1: "cfg1 = set_header cfgr ''Access-Token'' (js_get newToken ''token'')"
  shows "obj_get cfg0 ''retried'' = JUndefined
     \<and> request_onFulfilled env w cfg0
         = Inl (interceptor_reject cfg0 AuthTokenExpiredError ''Token is already expired'')
     \<and> refreshingToken env w = (Inr (js_get payload ''data''), w3)
     \<and> trace w3 = trace w @ [post]
     \<and> storage w3 = Some (JSON_stringify env (js_get payload ''data''))
     \<and> private_callApi env w (pick cfg PATHS_WHITELIST) = axios_instance env w3 cfgr
     \<and> obj_get cfgr ''retried'' = JBool True
     \<and> (getLocalStorageToken (JSON_parse env) (storage w3) = newToken
          \<and> newToken \<noteq> JNull
          \<and> \<not> isTokenExpired (ToNumber env) (date_now w3) newToken
          \<and> net env (trace w3 @ [NetRequest cfg1]) = Answer status' payload'
          \<and> 200 \<le> status' \<and> status' < 300
          \<and> truthy payload' \<and> isReqSuccess env payload'
        \<longrightarrow> fst (callApi env w cfg) = Returned (Data payload')
          \<and> trace (snd (callApi env w cfg)) = trace w @ [post, NetRequest cfg1]
          \<and> storage (snd (callApi env w cfg))
              = Some (JSON_stringify env (js_get payload ''data'')))"
proof -
  have fresh: "obj_get cfg0 ''retried'' = JUndefined"
    unfolding cfg0 by (rule request_config_not_retried)
  have present: "tokenObj \<noteq> JNull"
    using expireAt by auto
  have expired: "isTokenExpired (ToNumber env) (date_now w) tokenObj"
    using expireAt past present by (simp add: isTokenExpired_past)
  have not_retried: "\<not> truthy (obj_get cfg0 ''retried'')"
    by (simp add: fresh)
  note first = expired_refreshes_and_resubmits [OF needs_token not_retried stored present
      expired post refreshed conjunct1 [OF status] conjunct2 [OF status]
      conjunct1 [OF success] conjunct2 [OF success] w3]
  have w3_facts: "trace w3 = trace w @ [post]"
      "storage w3 = Some (JSON_stringify env (js_get payload ''data''))"
    by (simp_all add: w3 trace_advance)
  have resubmitted: "private_callApi env w (pick cfg PATHS_WHITELIST) = axios_instance env w3 cfgr"
    using first(3) by (simp add: private_callApi_def cfg0 cfgr)
  have marked: "obj_get cfgr ''retried'' = JBool True"
    by (simp add: cfgr obj_get_obj_set)
  have needs_token': "\<not> truthy (obj_get cfgr ''withoutAuth'')"
    using needs_token by (simp add: cfgr obj_get_obj_set)
  have last: "fst (callApi env w cfg) = Returned (Data payload')
      \<and> trace (snd (callApi env w cfg)) = trace w @ [post, NetRequest cfg1]
      \<and> storage (snd (callApi env w cfg)) = Some (JSON_stringify env (js_get payload ''data''))"
    if retry: "getLocalStorageToken (JSON_parse env) (storage w3) = newToken
          \<and> newToken \<noteq> JNull
          \<and> \<not> isTokenExpired (ToNumber env) (date_now w3) newToken
          \<and> net env (trace w3 @ [NetRequest cfg1]) = Answer status' payload'
          \<and> 200 \<le> status' \<and> status' < 300
          \<and> truthy payload' \<and> isReqSuccess env payload'"
  proof -
    let ?resp = "\<lparr>r_status = status', r_data = payload', r_config = cfg1\<rparr>"
    from retry have r: "getLocalStorageToken (JSON_parse env) (storage w3) = newToken"
        "newToken \<noteq> JNull" "\<not> isTokenExpired (ToNumber env) (date_now w3) newToken"
        "net env (trace w3 @ [NetRequest cfg1]) = Answer status' payload'"
        "200 \<le> status'" "status' < 300" "truthy payload'" "isReqSuccess env payload'"
      by simp_all
    note second = authorized_request_succeeds [OF needs_token' r(1) r(2) r(3) cfg1 r(4) r(5)
        r(6) r(7) r(8)]
    have run: "fst (axios_instance env w cfg0) = Inr ?resp"
      using second(1) by (simp add: first(3) cfgr)
    have "fst (callApi env w cfg) = Returned (Data (r_data ?resp))"
      by (rule callApi_success(1)) (simp add: run cfg0 [symmetric])
    moreover have "snd (callApi env w cfg) = snd (axios_instance env w3 cfgr)"
      using callApi_success(2) [of env w cfg ?resp] run
      by (simp add: cfg0 [symmetric] first(3) cfgr)
    ultimately show ?thesis
      using second(2) second(3) by (simp add: w3_facts)
  qed
  show ?thesis
    using fresh first(1) first(2) w3_facts resubmitted marked last by blast
qed

theorem expired_token_refresh_and_retry_witness:
  "fst (callApi (demo_env [Answer 200 (ok_payload new_token),
               Answer 200 (ok_payload (JStr ''orders''))]) (demo_world (Some ''old''))
             orders_config)
     = Returned (Data (ok_payload (JStr ''orders'')))
   \<and> trace (snd (callApi (demo_env [Answer 200 (ok_payload new_token),
               Answer 200 (ok_payload (JStr ''orders''))]) (demo_world (Some ''old''))
             orders_config))
     = [RefreshPost URL_REFRESH_TOKEN (JObj [(''refreshToken'', JStr ''R'')])
          [(''headers'', JObj [(''Access-Token'', JStr ''A'')])],
        NetRequest [(''url'', JStr ''/orders''), (''method'', JStr ''get''),
          (''data'', JUndefined), (''retried'', JBool True),
          (''headers'', JObj [(''Access-Token'', JStr ''B'')])]]
   \<and> storage (snd (callApi (demo_env [Answer 200 (ok_payload new_token),
               Answer 200 (ok_payload (JStr ''orders''))]) (demo_world (Some ''old''))
             orders_config))
     = Some ''new''"
proof -
  let ?answers = "[Answer 200 (ok_payload new_token), Answer 200 (ok_payload (JStr ''orders''))]"
  let ?env = "demo_env ?answers" and ?w = "demo_world (Some ''old'')"
  let ?cfg0 = "[(''url'', JStr ''/orders''), (''method'', JStr ''get''), (''data'', JUndefined)]"
  let ?post = "RefreshPost URL_REFRESH_TOKEN
      (JObj [(''refreshToken'', js_get old_token ''refreshToken'')]) (refresh_config old_token)"
  let ?w3 = "\<lparr>storage = Some ''new'', logoutTimeout = None, date_now = 5010,
      trace = trace ?w @ [?post]\<rparr>"
  let ?cfg1 = "set_header (obj_set ?cfg0 ''retried'' (JBool True)) ''Access-Token''
      (js_get new_token ''token'')"
  have h2: "\<not> truthy (obj_get ?cfg0 ''withoutAuth'')"
    by (simp add: obj_get_def)
  have h4: "js_get old_token ''expireAt'' = JNum 4000"
    by (simp add: old_token_def obj_get_def)
  have h5: "4000 < date_now ?w"
    by (simp add: demo_world_def)
  have h7: "net ?env (trace ?w @ [?post]) = Answer 200 (ok_payload new_token)"
    by (simp add: demo_env_def demo_scripted_first)
  have h8: "(200::int) \<le> 200 \<and> (200::int) < 300"
    by simp
  have h9: "isReqSuccess ?env (ok_payload new_token) \<and> \<not> nullish (ok_payload new_token)"
    by (simp add: demo_env_def demo_success_def ok_payload_def obj_get_def)
  have retry: "getLocalStorageToken (JSON_parse ?env) (storage ?w3) = new_token
      \<and> new_token \<noteq> JNull
      \<and> \<not> isTokenExpired (ToNumber ?env) (date_now ?w3) new_token
      \<and> net ?env (trace ?w3 @ [NetRequest ?cfg1]) = Answer 200 (ok_payload (JStr ''orders''))
      \<and> (200::int) \<le> 200 \<and> (200::int) < 300
      \<and> truthy (ok_payload (JStr ''orders''))
      \<and> isReqSuccess ?env (ok_payload (JStr ''orders''))"
    by (simp add: demo_token_refreshed)
      (simp add: new_token_def isTokenExpired_def js_coalesce_def obj_get_def demo_env_def
        demo_success_def ok_payload_def demo_scripted_second)
  note r = expired_token_refresh_and_retry [OF demo_orders_request [symmetric] h2
      demo_token_old h4 h5 refl h7 h8 h9 demo_refreshed_world [symmetric] refl refl,
      of new_token 200 "ok_payload (JStr ''orders'')"]
  from r retry have a: "fst (callApi ?env ?w orders_config)
      = Returned (Data (ok_payload (JStr ''orders'')))"
    by blast
  from r retry have b: "trace (snd (callApi ?env ?w orders_config))
      = trace ?w @ [?post, NetRequest ?cfg1]"
    by blast
  from r retry have c: "storage (snd (callApi ?env ?w orders_config))
      = Some (JSON_stringify ?env (js_get (ok_payload new_token) ''data''))"
    by blast
  have b': "trace ?w @ [?post, NetRequest ?cfg1]
      = [RefreshPost URL_REFRESH_TOKEN (JObj [(''refreshToken'', JStr ''R'')])
          [(''headers'', JObj [(''Access-Token'', JStr ''A'')])],
        NetRequest [(''url'', JStr ''/orders''), (''method'', JStr ''get''),
          (''data'', JUndefined), (''retried'', JBool True),
          (''headers'', JObj [(''Access-Token'', JStr ''B'')])]]"
    by (simp add: demo_world_def old_token_def new_token_def refresh_config_def obj_get_def
        set_header_def obj_set_def)
  have c': "JSON_stringify ?env (js_get (ok_payload new_token) ''data'') = ''new''"
    by (simp add: demo_env_def demo_stringify_def ok_payload_def obj_get_def)
  show ?thesis
    using a b c by (simp only: b' c')
qed

text \<open>
  The claim as stated fails in its last part: what the facade returns is the payload, and
  the payload differs from its own property \<^verbatim>\<open>data\<close>.
\<close>

theorem facade_returns_payload_counterexample:
  "fst (callApi (demo_env [Answer 200 (ok_payload new_token), Answer 200 (ok_payload (JStr ''orders''))])
       (demo_world (Some ''old'')) orders_config)
     = Returned (Data (JObj [(''status'', JStr ''OK''), (''code'', JStr ''CM000000''),
                             (''data'', JStr ''orders'')]))
   \<and> fst (callApi (demo_env [Answer 200 (ok_payload new_token), Answer 200 (ok_payload (JStr ''orders''))])
       (demo_world (Some ''old'')) orders_config)
     \<noteq> Returned (Data (js_get (JObj [(''status'', JStr ''OK''), (''code'', JStr ''CM000000''),
                             (''data'', JStr ''orders'')]) ''data''))"
proof -
  let ?answers = "[Answer 200 (ok_payload new_token), Answer 200 (ok_payload (JStr ''orders''))]"
  let ?env = "demo_env ?answers" and ?w = "demo_world (Some ''old'')"
  let ?cfg0 = "[(''url'', JStr ''/orders''), (''method'', JStr ''get''), (''data'', JUndefined)]"
  let ?cfgr = "obj_set ?cfg0 ''retried'' (JBool True)"
  let ?post = "RefreshPost URL_REFRESH_TOKEN
      (JObj [(''refreshToken'', js_get old_token ''refreshToken'')]) (refresh_config old_token)"
  let ?w3 = "\<lparr>storage = Some ''new'', logoutTimeout = None, date_now = 5010,
      trace = trace ?w @ [?post]\<rparr>"
  let ?cfg1 = "set_header ?cfgr ''Access-Token'' (js_get new_token ''token'')"
  have h2: "\<not> truthy (obj_get ?cfg0 ''withoutAuth'')" "\<not> truthy (obj_get ?cfg0 ''retried'')"
    by (simp_all add: obj_get_def)
  have h3: "old_token \<noteq> JNull" "isTokenExpired (ToNumber ?env) (date_now ?w) old_token"
    by (simp_all add: old_token_def isTokenExpired_def js_coalesce_def obj_get_def
        demo_world_def)
  have h7: "net ?env (trace ?w @ [?post]) = Answer 200 (ok_payload new_token)"
    by (simp add: demo_env_def demo_scripted_first)
  have h9: "isReqSuccess ?env (ok_payload new_token)" "\<not> nullish (ok_payload new_token)"
    by (simp_all add: demo_env_def demo_success_def ok_payload_def obj_get_def)
  have first: "axios_instance ?env ?w ?cfg0 = axios_instance ?env ?w3 ?cfgr"
    by (rule expired_refreshes_and_resubmits(3) [OF h2 demo_token_old h3 refl h7 _ _ h9
          demo_refreshed_world [symmetric]]) simp_all
  have g1: "\<not> truthy (obj_get ?cfgr ''withoutAuth'')"
    by (simp add: obj_get_def obj_set_def)
  have g2: "getLocalStorageToken (JSON_parse ?env) (storage ?w3) = new_token"
    by (simp add: demo_token_refreshed)
  have g3: "new_token \<noteq> JNull" "\<not> isTokenExpired (ToNumber ?env) (date_now ?w3) new_token"
    by (simp_all add: new_token_def isTokenExpired_def js_coalesce_def obj_get_def)
  have g4: "net ?env (trace ?w3 @ [NetRequest ?cfg1]) = Answer 200 (ok_payload (JStr ''orders''))"
    by (simp add: demo_env_def demo_scripted_second)
  have g5: "truthy (ok_payload (JStr ''orders''))" "isReqSuccess ?env (ok_payload (JStr ''orders''))"
    by (simp_all add: demo_env_def demo_success_def ok_payload_def obj_get_def)
  have "fst (axios_instance ?env ?w3 ?cfgr)
      = Inr \<lparr>r_status = 200, r_data = ok_payload (JStr ''orders''), r_config = ?cfg1\<rparr>"
    by (rule authorized_request_succeeds(1) [OF g1 g2 g3 refl g4 _ _ g5]) simp_all
  then have "fst (callApi ?env ?w orders_config) = Returned (Data (ok_payload (JStr ''orders'')))"
    using callApi_success(1) [of ?env ?w orders_config
        "\<lparr>r_status = 200, r_data = ok_payload (JStr ''orders''), r_config = ?cfg1\<rparr>"]
    by (simp add: demo_orders_request first)
  then show ?thesis
    by (simp add: ok_payload_def obj_get_def)
qed

end
